theory Spec2Isabelle
  imports Main "HOL-Library.Sublist"
begin

section \<open>Scheduling directives of a stage (Halide/src/Func.cpp)\<close>

text \<open>
  The theory embeds the scheduling directives of \<^verbatim>\<open>Stage\<close> from
  \<^verbatim>\<open>src/Halide/src/Func.cpp\<close>: a stage is a record of the schedule state the
  directives read and write, a directive takes the stage and returns either the stage it
  leaves behind or the error it raised together with the stage as it was left at the point
  of the \<^verbatim>\<open>user_assert\<close>/\<^verbatim>\<open>user_error\<close>. The C++ mutates the
  schedule through references, so whatever a directive wrote before it raised stays written.
\<close>

subsection \<open>Data model\<close>

datatype for_type =
  Serial | Parallel | Vectorized | Unrolled | Extern | GPUBlock | GPUThread | GPULane

datatype device_api = DeviceNone | DeviceHost | DeviceGLSL | DeviceHexagon

datatype dim_kind = PureVar | PureRVar | ImpureRVar

datatype tail_strategy = RoundUp | GuardWithIf | ShiftInwards | Auto

datatype split_kind = SplitVar | RenameVar | FuseVars | PurifyRVar

datatype call_type = CallHalide | CallExtern | CallImage | CallIntrinsic

datatype binop = Add | Sub | Mul | Div | Mod | Min | Max | EQ | NE | LT | LE | GT | GE | And | Or

text \<open>
  Expressions: the fragment of the IR the directives build and rewrite. \<open>ExprUndefined\<close>
  is the undefined handle \<^verbatim>\<open>Expr()\<close>. A variable is identified by its name, the only
  thing substitution looks at.
\<close>

datatype expr =
  ExprUndefined
  | IntImm int
  | Variable string
  | BinOp binop expr expr
  | Call string "expr list" call_type nat

record dim =
  var :: string
  for_type :: for_type
  device_api :: device_api
  dim_type :: dim_kind

record split =
  old_var :: string
  outer :: string
  inner :: string
  factor :: expr
  exact :: bool
  tail :: tail_strategy
  split_type :: split_kind

record reduction_variable =
  rv_var :: string
  rv_min :: expr
  rv_extent :: expr

record var_or_rvar =
  name :: string
  is_rvar :: bool

text \<open>
  \<^verbatim>\<open>LoopLevel\<close>: inlined (the default, no \<^verbatim>\<open>compute_with\<close>), root, or at a
  variable of a stage of a function.
\<close>

datatype loop_level = LevelInlined | LevelRoot | LevelAt string var_or_rvar nat

text \<open>
  \<^verbatim>\<open>AssociativeOp\<close>, the answer of the associativity prover: the operator pattern
  \<open>ops\<close> over the symbolic operands named by \<open>xs\<close> (accumulator) and \<open>ys\<close> (new
  contribution), one per tuple slot, and the identity of each operator.
\<close>

record associative_op =
  associative :: bool
  commutative :: bool
  ops :: "expr list"
  identities :: "expr list"
  xs :: "string list"
  ys :: "string list"

datatype apply_split_result_type = Substitution | LetStmt | Predicate

record apply_split_result =
  res_name :: string
  res_value :: expr
  res_type :: apply_split_result_type

text \<open>
  The stage: \<^verbatim>\<open>function.name()\<close>, \<^verbatim>\<open>stage_index\<close>, \<^verbatim>\<open>dim_vars\<close>, the
  definition (\<^verbatim>\<open>is_init\<close>, \<^verbatim>\<open>args\<close>, \<^verbatim>\<open>values\<close>, the predicate as the list
  of its conjuncts) and its schedule (\<^verbatim>\<open>dims\<close>, \<^verbatim>\<open>splits\<close>, \<^verbatim>\<open>rvars\<close>, the
  three flags, the fuse level), and the storage dimensions of the function's schedule.
  \<open>dims\<close> is ordered from the innermost loop to the outermost.
\<close>

record stage =
  func_name :: string
  stage_index :: nat
  dim_vars :: "string list"
  is_init :: bool
  args :: "expr list"
  def_values :: "expr list"
  predicates :: "expr list"
  dims :: "dim list"
  splits :: "split list"
  rvars :: "reduction_variable list"
  allow_race_conditions :: bool
  atomic :: bool
  override_atomic_associativity_test :: bool
  fuse_level :: loop_level
  storage_dims :: "string list"

text \<open>
  The collaborators declared in headers that are not part of the sources at hand
  (\<^verbatim>\<open>Associativity.h\<close>, \<^verbatim>\<open>Simplify.h\<close>, \<^verbatim>\<open>ApplySplit.h\<close>, \<^verbatim>\<open>Util.h\<close>)
  are parameters of the model.
\<close>

record externals =
  prove_associativity :: "string \<Rightarrow> expr list \<Rightarrow> expr list \<Rightarrow> associative_op"
  simplify :: "expr \<Rightarrow> expr"
  can_prove :: "expr \<Rightarrow> bool"
  apply_split_ext :: "split \<Rightarrow> (string \<Rightarrow> expr option) \<Rightarrow> apply_split_result list"
  compute_loop_bounds_after_split :: "split \<Rightarrow> (string \<times> expr) list"
  unique_name :: "string \<Rightarrow> string"

datatype error =
  DimensionNotFound
  | NameCollision
  | InvalidTailStrategy
  | RaceCondition
  | AtomicNotAssociative
  | MultipleVectorization
  | VarKindMismatch
  | NotUpdateDefinition
  | NotAssociative
  | NotInReductionDomain
  | NonCommutativeOrderViolation
  | UnsafeReorder
  | DependentTransform
  | InternalError
  | UndefinedBehaviour

text \<open>
  What a call leaves: \<open>Done r s\<close>, it returned \<open>r\<close> and the stage is \<open>s\<close>;
  \<open>Raised e s\<close>, it raised \<open>e\<close> and the stage was left as \<open>s\<close>.
\<close>

datatype 'a outcome = Done 'a stage | Raised error stage

fun is_done :: "'a outcome \<Rightarrow> bool" where
  "is_done (Done r s) = True"
| "is_done (Raised e s) = False"

fun final_stage :: "'a outcome \<Rightarrow> stage" where
  "final_stage (Done r s) = s"
| "final_stage (Raised e s) = s"

text \<open>
  A \<^verbatim>\<open>for\<close> loop over the given indices, with the loop-carried value \<open>a\<close>; a raise in
  the body leaves the loop.
\<close>

fun for_loop :: "(nat \<Rightarrow> 'a \<Rightarrow> stage \<Rightarrow> 'a outcome) \<Rightarrow> nat list \<Rightarrow> 'a \<Rightarrow> stage \<Rightarrow> 'a outcome" where
  "for_loop body [] a s = Done a s"
| "for_loop body (i # is) a s =
     (case body i a s of
        Raised e s' \<Rightarrow> Raised e s'
      | Done a' s' \<Rightarrow> for_loop body is a' s')"

subsection \<open>Name resolution\<close>

definition dim_is_pure :: "dim \<Rightarrow> bool" where
  "dim_is_pure d = (dim_type d = PureVar \<or> dim_type d = PureRVar)"

definition dim_is_rvar :: "dim \<Rightarrow> bool" where
  "dim_is_rvar d = (dim_type d = PureRVar \<or> dim_type d = ImpureRVar)"

text \<open>
  Modelled from the spec: \<^verbatim>\<open>Internal::ends_with\<close> (Util.h) is not in the sources;
  section 4.1 gives the matching rule as "candidate ends with \<^verbatim>\<open>"." + name\<close>".
\<close>

definition ends_with :: "string \<Rightarrow> string \<Rightarrow> bool" where
  "ends_with str suff =
     (length suff \<le> length str \<and> drop (length str - length suff) str = suff)"

text \<open>
  Modelled from the spec: \<^verbatim>\<open>is_parallel\<close> (Expr.h) is not in the sources; section 4.6
  names the parallel and the vectorized loop types, and the GPU block, thread and lane
  loops run their iterations in parallel as well.
\<close>

definition is_parallel :: "for_type \<Rightarrow> bool" where
  "is_parallel t = (t = Parallel \<or> t = Vectorized \<or> t = GPUBlock \<or> t = GPUThread \<or> t = GPULane)"

text \<open>
  \<^verbatim>\<open>var_name_match\<close>: its \<^verbatim>\<open>internal_assert\<close> refuses a qualified name as second
  argument.
\<close>

definition var_name_match :: "string \<Rightarrow> string \<Rightarrow> error + bool" where
  "var_name_match candidate v =
     (if CHR ''.'' \<in> set v then Inl InternalError
      else Inr (candidate = v \<or> ends_with candidate (''.'' @ v)))"

text \<open>
  The index of the first dimension that matches \<open>v\<close>: the loops of the form
  \<^verbatim>\<open>for (i = 0; (!found) && i < dims.size(); i++) if (var_name_match(dims[i].var, v))\<close>
  and the \<^verbatim>\<open>std::find_if\<close> calls over \<open>dims\<close>.
\<close>

fun find_dim :: "dim list \<Rightarrow> string \<Rightarrow> error + nat option" where
  "find_dim [] v = Inr None"
| "find_dim (d # ds) v =
     (case var_name_match (var d) v of
        Inl e \<Rightarrow> Inl e
      | Inr True \<Rightarrow> Inr (Some 0)
      | Inr False \<Rightarrow>
          (case find_dim ds v of
             Inl e \<Rightarrow> Inl e
           | Inr None \<Rightarrow> Inr None
           | Inr (Some i) \<Rightarrow> Inr (Some (Suc i))))"

subsection \<open>atomic and allow_race_conditions\<close>

definition allow_race_conditions_directive :: "stage \<Rightarrow> stage" where
  "allow_race_conditions_directive s = s\<lparr>allow_race_conditions := True\<rparr>"

definition atomic_directive :: "bool \<Rightarrow> stage \<Rightarrow> stage" where
  "atomic_directive override_associativity_test s =
     s\<lparr>atomic := True, override_atomic_associativity_test := override_associativity_test\<rparr>"

subsection \<open>set_dim_type\<close>

text \<open>
  The checks of \<^verbatim>\<open>set_dim_type\<close> on a matched impure reduction dimension: with
  \<^verbatim>\<open>atomic\<close> set, no \<^verbatim>\<open>allow_race_conditions\<close> and no override, the prover must
  certify associativity; then one of the two flags must be set.
\<close>

definition race_check :: "externals \<Rightarrow> stage \<Rightarrow> error option" where
  "race_check ext s =
     (case (if \<not> allow_race_conditions s \<and> atomic s then
              (if \<not> override_atomic_associativity_test s then
                 (let prover_result = prove_associativity ext (func_name s) (args s) (def_values s) in
                  if \<not> associative prover_result then Some AtomicNotAssociative
                  else if length (ops prover_result) \<noteq> length (def_values s) then Some InternalError
                  else None)
               else None)
            else None) of
        Some e \<Rightarrow> Some e
      | None \<Rightarrow>
          (if allow_race_conditions s \<or> atomic s then None else Some RaceCondition))"

definition set_dim_type_body ::
  "externals \<Rightarrow> var_or_rvar \<Rightarrow> for_type \<Rightarrow> nat \<Rightarrow> bool \<Rightarrow> stage \<Rightarrow> bool outcome" where
  "set_dim_type_body ext v t i found s =
     (let d = dims s ! i in
      case var_name_match (var d) (name v) of
        Inl e \<Rightarrow> Raised e s
      | Inr True \<Rightarrow>
          (let s' = s\<lparr>dims := (dims s)[i := d\<lparr>for_type := t\<rparr>]\<rparr> in
           if \<not> dim_is_pure d \<and> is_rvar v \<and> is_parallel t then
             (case race_check ext s' of
                Some e \<Rightarrow> Raised e s'
              | None \<Rightarrow> Done True s')
           else Done True s')
      | Inr False \<Rightarrow>
          (if t = Vectorized \<and> for_type d = Vectorized then Raised MultipleVectorization s
           else Done found s))"

definition set_dim_type :: "externals \<Rightarrow> var_or_rvar \<Rightarrow> for_type \<Rightarrow> stage \<Rightarrow> unit outcome" where
  "set_dim_type ext v t s =
     (case for_loop (set_dim_type_body ext v t) [0..<length (dims s)] False s of
        Raised e s' \<Rightarrow> Raised e s'
      | Done found s' \<Rightarrow>
          (if \<not> found then Raised DimensionNotFound s' else Done () s'))"

definition parallel :: "externals \<Rightarrow> var_or_rvar \<Rightarrow> stage \<Rightarrow> unit outcome" where
  "parallel ext v s = set_dim_type ext v Parallel s"

definition vectorize :: "externals \<Rightarrow> var_or_rvar \<Rightarrow> stage \<Rightarrow> unit outcome" where
  "vectorize ext v s = set_dim_type ext v Vectorized s"

subsection \<open>split\<close>

text \<open>
  The first loop of \<^verbatim>\<open>Stage::split\<close>: every dimension against the new names
  \<^verbatim>\<open>{inner, outer}\<close>, in this order.
\<close>

fun name_collides :: "string \<Rightarrow> string list \<Rightarrow> string \<Rightarrow> error option" where
  "name_collides candidate [] old = None"
| "name_collides candidate (n # ns) old =
     (case var_name_match candidate n of
        Inl e \<Rightarrow> Some e
      | Inr m \<Rightarrow> (if m \<and> n \<noteq> old then Some NameCollision else name_collides candidate ns old))"

fun check_new_names :: "dim list \<Rightarrow> string list \<Rightarrow> string \<Rightarrow> error option" where
  "check_new_names [] ns old = None"
| "check_new_names (d # ds) ns old =
     (case name_collides (var d) ns old of
        Some e \<Rightarrow> Some e
      | None \<Rightarrow> check_new_names ds ns old)"

text \<open>
  Replacing dimension \<open>i\<close> by the inner and the outer dimension; the outer loop of a split
  extern loop is serial.
\<close>

definition split_dims :: "dim list \<Rightarrow> nat \<Rightarrow> string \<Rightarrow> string \<Rightarrow> dim list" where
  "split_dims ds i inner_name outer_name =
     (let d = ds ! i;
          d_inner = d\<lparr>var := inner_name\<rparr>;
          d_outer = (if for_type d = Extern then d\<lparr>var := outer_name, for_type := Serial\<rparr>
                     else d\<lparr>var := outer_name\<rparr>)
      in take i ds @ [d_inner, d_outer] @ drop (Suc i) ds)"

text \<open>The set \<^verbatim>\<open>inner_vars\<close> built over the split history of an update definition.\<close>

definition inner_vars_step :: "string set \<Rightarrow> split \<Rightarrow> string set" where
  "inner_vars_step iv s =
     (if split_type s = SplitVar then
        (let iv' = insert (inner s) iv in
         if old_var s \<in> iv' then insert (outer s) iv' else iv')
      else if split_type s = RenameVar \<or> split_type s = PurifyRVar then
        (if old_var s \<in> iv then insert (outer s) iv else iv)
      else
        (if inner s \<in> iv \<or> outer s \<in> iv then insert (old_var s) iv else iv))"

definition inner_vars :: "split list \<Rightarrow> string set" where
  "inner_vars ss = foldl inner_vars_step {} ss"

text \<open>The map \<^verbatim>\<open>descends_from_shiftinwards_outer\<close> built over the split history.\<close>

definition descends_step :: "(string \<Rightarrow> expr option) \<Rightarrow> split \<Rightarrow> (string \<Rightarrow> expr option)" where
  "descends_step m s =
     (let it = m (old_var s) in
      if split_type s = SplitVar \<and> tail s = ShiftInwards then m(outer s \<mapsto> factor s)
      else if split_type s = SplitVar \<and> it \<noteq> None then m(inner s \<mapsto> the it, outer s \<mapsto> the it)
      else if (split_type s = RenameVar \<or> split_type s = PurifyRVar) \<and> it \<noteq> None
        then m(outer s \<mapsto> the it)
      else m)"

definition descends_from_shiftinwards_outer :: "split list \<Rightarrow> (string \<Rightarrow> expr option)" where
  "descends_from_shiftinwards_outer ss = foldl descends_step Map.empty ss"

text \<open>The choice made for \<^verbatim>\<open>TailStrategy::Auto\<close>.\<close>

definition select_tail ::
  "externals \<Rightarrow> stage \<Rightarrow> string \<Rightarrow> expr \<Rightarrow> bool \<Rightarrow> bool \<Rightarrow> tail_strategy \<Rightarrow> tail_strategy" where
  "select_tail ext s old_name fac exact_flag round_up_ok tail_req =
     (if tail_req = Auto then
        (if exact_flag then GuardWithIf
         else if \<not> is_init s then (if round_up_ok then RoundUp else GuardWithIf)
         else
           (case descends_from_shiftinwards_outer (splits s) old_name of
              Some f \<Rightarrow> (if can_prove ext (BinOp GE f fac) then RoundUp else ShiftInwards)
            | None \<Rightarrow> ShiftInwards))
      else tail_req)"

text \<open>
  \<^verbatim>\<open>Stage::split(old, outer, inner, factor, exact, tail)\<close>. After the dimension is
  found the dimension list is rewritten at once; the checks on the tail strategy come
  later and raise with the rewritten list in place.
\<close>

definition stage_split ::
  "externals \<Rightarrow> string \<Rightarrow> string \<Rightarrow> string \<Rightarrow> expr \<Rightarrow> bool \<Rightarrow> tail_strategy \<Rightarrow> stage
     \<Rightarrow> unit outcome" where
  "stage_split ext old outer_v inner_v fac exact_flag tail_req s =
     (case check_new_names (dims s) [inner_v, outer_v] old of
        Some e \<Rightarrow> Raised e s
      | None \<Rightarrow>
     (case find_dim (dims s) old of
        Inl e \<Rightarrow> Raised e s
      | Inr None \<Rightarrow> Raised DimensionNotFound s
      | Inr (Some i) \<Rightarrow>
          (let old_name = var (dims s ! i);
               inner_name = old_name @ ''.'' @ inner_v;
               outer_name = old_name @ ''.'' @ outer_v;
               s1 = s\<lparr>dims := split_dims (dims s) i inner_name outer_name\<rparr>;
               round_up_ok =
                 (if \<not> exact_flag \<and> \<not> is_init s1 then old_name \<notin> inner_vars (splits s1)
                  else \<not> exact_flag)
           in
           if \<not> exact_flag \<and> \<not> is_init s1 \<and> \<not> (round_up_ok \<or> tail_req \<noteq> RoundUp)
             then Raised InvalidTailStrategy s1
           else
             (let tail_sel = select_tail ext s1 old_name fac exact_flag round_up_ok tail_req in
              if \<not> is_init s1 \<and> tail_sel = ShiftInwards then Raised InvalidTailStrategy s1
              else if exact_flag \<and> tail_sel \<noteq> GuardWithIf then Raised InvalidTailStrategy s1
              else
                Done () (s1\<lparr>splits := splits s1 @
                  [\<lparr>old_var = old_name, outer = outer_name, inner = inner_name, factor = fac,
                    exact = exact_flag, tail = tail_sel, split_type = SplitVar\<rparr>]\<rparr>)))))"

text \<open>\<^verbatim>\<open>Stage::split(VarOrRVar old, VarOrRVar outer, VarOrRVar inner, factor, tail)\<close>.\<close>

definition split_var ::
  "externals \<Rightarrow> var_or_rvar \<Rightarrow> var_or_rvar \<Rightarrow> var_or_rvar \<Rightarrow> expr \<Rightarrow> tail_strategy \<Rightarrow> stage
     \<Rightarrow> unit outcome" where
  "split_var ext old outer_v inner_v fac tail_req s =
     (if is_rvar old \<and> \<not> is_rvar outer_v then Raised VarKindMismatch s
      else if is_rvar old \<and> \<not> is_rvar inner_v then Raised VarKindMismatch s
      else if \<not> is_rvar old \<and> is_rvar outer_v then Raised VarKindMismatch s
      else if \<not> is_rvar old \<and> is_rvar inner_v then Raised VarKindMismatch s
      else stage_split ext (name old) (name outer_v) (name inner_v) fac (is_rvar old) tail_req s)"

subsection \<open>fuse\<close>


subsection \<open>purify\<close>

definition purify :: "var_or_rvar \<Rightarrow> var_or_rvar \<Rightarrow> stage \<Rightarrow> unit outcome" where
  "purify old_v new_v s =
     (if \<not> (is_rvar old_v \<and> \<not> is_rvar new_v) then Raised VarKindMismatch s
      else
     (case find_dim (dims s) (name old_v) of
        Inl e \<Rightarrow> Raised e s
      | Inr None \<Rightarrow> Raised DimensionNotFound s
      | Inr (Some i) \<Rightarrow>
          (let old_name = var (dims s ! i);
               new_name = name new_v;
               s1 = s\<lparr>dims := (dims s)[i := (dims s ! i)\<lparr>var := new_name, dim_type := PureVar\<rparr>]\<rparr>
           in
           Done () (s1\<lparr>splits := splits s1 @
             [\<lparr>old_var = old_name, outer = new_name, inner = [], factor = IntImm 1,
               exact = False, tail = RoundUp, split_type = PurifyRVar\<rparr>]\<rparr>))))"

subsection \<open>rename\<close>



subsection \<open>remove\_dimension\<close>

fun find_dim_exact :: "dim list \<Rightarrow> string \<Rightarrow> nat option" where
  "find_dim_exact [] v = None"
| "find_dim_exact (d # ds) v =
     (if var d = v then Some 0
      else (case find_dim_exact ds v of None \<Rightarrow> None | Some i \<Rightarrow> Some (Suc i)))"

text \<open>
  The backward walk of \<^verbatim>\<open>remove_dimension\<close> over the reversed history, with the set
  \<^verbatim>\<open>removed_vars\<close>; it returns the entries that stay, in their original order.
\<close>

fun remove_splits :: "split list \<Rightarrow> string \<Rightarrow> string set \<Rightarrow> error + split list" where
  "remove_splits [] old_name removed_vars = Inr []"
| "remove_splits (e # es) old_name removed_vars =
     (if split_type e = FuseVars then
        (if inner e = old_name \<or> outer e = old_name then Inl DependentTransform
         else if old_var e \<in> removed_vars then
           remove_splits es old_name (insert (inner e) (insert (outer e) removed_vars))
         else
           (case remove_splits es old_name removed_vars of
              Inl err \<Rightarrow> Inl err
            | Inr temp \<Rightarrow> Inr (temp @ [e])))
      else if split_type e = SplitVar then
        (let is_removed = (inner e \<in> removed_vars \<or> outer e \<in> removed_vars);
             removed_vars' = (if is_removed then insert (old_var e) removed_vars else removed_vars)
         in
         if old_var e = old_name then Inl DependentTransform
         else
           (case remove_splits es old_name removed_vars' of
              Inl err \<Rightarrow> Inl err
            | Inr temp \<Rightarrow> Inr (if is_removed then temp else temp @ [e])))
      else
        (let is_removed = (outer e \<in> removed_vars);
             removed_vars' = (if is_removed then insert (old_var e) removed_vars else removed_vars)
         in
         if old_var e = old_name then Inl DependentTransform
         else
           (case remove_splits es old_name removed_vars' of
              Inl err \<Rightarrow> Inl err
            | Inr temp \<Rightarrow> Inr (if is_removed then temp else temp @ [e]))))"

definition remove_dimension :: "string \<Rightarrow> stage \<Rightarrow> unit outcome" where
  "remove_dimension v s =
     (case find_dim_exact (dims s) v of
        None \<Rightarrow> Raised DimensionNotFound s
      | Some i \<Rightarrow>
          (let s1 = s\<lparr>dims := take i (dims s) @ drop (Suc i) (dims s)\<rparr> in
           case remove_splits (rev (splits s1)) v {v} of
             Inl e \<Rightarrow> Raised e s1
           | Inr temp \<Rightarrow> Done () (s1\<lparr>splits := temp\<rparr>)))"

subsection \<open>reorder\<close>

text \<open>
  The location of a variable in \<^verbatim>\<open>Stage::reorder\<close>: the loop has no
  \<^verbatim>\<open>break\<close>, so the last matching dimension wins.
\<close>

fun find_last_dim :: "dim list \<Rightarrow> string \<Rightarrow> nat \<Rightarrow> nat option \<Rightarrow> error + nat option" where
  "find_last_dim [] v j acc = Inr acc"
| "find_last_dim (d # ds) v j acc =
     (case var_name_match (var d) v of
        Inl e \<Rightarrow> Inl e
      | Inr m \<Rightarrow> find_last_dim ds v (Suc j) (if m then Some j else acc))"

fun reorder_indices :: "dim list \<Rightarrow> var_or_rvar list \<Rightarrow> error + nat list" where
  "reorder_indices ds [] = Inr []"
| "reorder_indices ds (v # vs) =
     (case find_last_dim ds (name v) 0 None of
        Inl e \<Rightarrow> Inl e
      | Inr None \<Rightarrow> Inl DimensionNotFound
      | Inr (Some j) \<Rightarrow>
          (case reorder_indices ds vs of
             Inl e \<Rightarrow> Inl e
           | Inr js \<Rightarrow> Inr (j # js)))"

text \<open>
  The search for a reordering of reduction variables: positions \<open>i < j\<close> of the
  request whose dimensions are both impure and with \<open>idx[i] > idx[j]\<close>. The prover is
  called at the first such pair; it is a function of the definition, so the answer is the
  same at every pair.
\<close>

fun rvar_reordered_with :: "dim list \<Rightarrow> nat \<Rightarrow> nat list \<Rightarrow> bool" where
  "rvar_reordered_with ds xi [] = False"
| "rvar_reordered_with ds xi (xj # rest) =
     ((\<not> dim_is_pure (ds ! xj) \<and> xi > xj) \<or> rvar_reordered_with ds xi rest)"

fun rvar_reordered :: "dim list \<Rightarrow> nat list \<Rightarrow> bool" where
  "rvar_reordered ds [] = False"
| "rvar_reordered ds (xi # rest) =
     ((\<not> dim_is_pure (ds ! xi) \<and> rvar_reordered_with ds xi rest) \<or> rvar_reordered ds rest)"

definition permute_dims :: "dim list \<Rightarrow> nat list \<Rightarrow> dim list" where
  "permute_dims dims_old idx =
     foldl (\<lambda>ds i. ds[sort idx ! i := dims_old ! (idx ! i)]) dims_old [0..<length idx]"

fun find_var :: "var_or_rvar list \<Rightarrow> string \<Rightarrow> error + nat option" where
  "find_var [] n = Inr None"
| "find_var (v # vs) n =
     (case var_name_match (name v) n of
        Inl e \<Rightarrow> Inl e
      | Inr True \<Rightarrow> Inr (Some 0)
      | Inr False \<Rightarrow>
          (case find_var vs n of
             Inl e \<Rightarrow> Inl e
           | Inr None \<Rightarrow> Inr None
           | Inr (Some i) \<Rightarrow> Inr (Some (Suc i))))"

text \<open>
  Keeping \<^verbatim>\<open>compute_with\<close> at the same position: the new fuse level, computed from
  the old dimension list, the permuted one and the request.
\<close>

definition retarget_fuse_level ::
  "loop_level \<Rightarrow> dim list \<Rightarrow> dim list \<Rightarrow> var_or_rvar list \<Rightarrow> error + loop_level" where
  "retarget_fuse_level lvl dims_old ds vars =
     (case lvl of
        LevelInlined \<Rightarrow> Inr LevelInlined
      | LevelRoot \<Rightarrow> Inl InternalError
      | LevelAt f original_var si \<Rightarrow>
          (case find_dim dims_old (name original_var) of
             Inl e \<Rightarrow> Inl e
           | Inr found_at \<Rightarrow>
               (let n0 = (case found_at of Some i \<Rightarrow> var (ds ! i) | None \<Rightarrow> []) in
                if n0 = [] \<and> ds = [] then Inl UndefinedBehaviour
                else
                  (let new_var_name = (if n0 = [] then var (ds ! 0) else n0) in
                   if new_var_name \<noteq> name original_var then
                     (case find_var vars new_var_name of
                        Inl e \<Rightarrow> Inl e
                      | Inr None \<Rightarrow> Inl InternalError
                      | Inr (Some new_var_pos) \<Rightarrow> Inr (LevelAt f (vars ! new_var_pos) si))
                   else Inr lvl))))"

definition reorder :: "externals \<Rightarrow> var_or_rvar list \<Rightarrow> stage \<Rightarrow> unit outcome" where
  "reorder ext vars s =
     (case reorder_indices (dims s) vars of
        Inl e \<Rightarrow> Raised e s
      | Inr idx \<Rightarrow>
          (let prover_result = prove_associativity ext (func_name s) (args s) (def_values s) in
           if rvar_reordered (dims s) idx
              \<and> \<not> (associative prover_result \<and> commutative prover_result)
             then Raised UnsafeReorder s
           else
             (let ds = permute_dims (dims s) idx in
              case retarget_fuse_level (fuse_level s) (dims s) ds vars of
                Inl e \<Rightarrow> Raised e s
              | Inr lvl \<Rightarrow> Done () (s\<lparr>dims := ds, fuse_level := lvl\<rparr>))))"

subsection \<open>Expression rewriting used by rfactor\<close>

text \<open>
  Modelled from the spec: \<^verbatim>\<open>substitute\<close> (Substitute.h) is not in the sources; section
  6 gives it as \<^verbatim>\<open>substitute(name_or_map, replacement, expr) -> expr\<close>, a pure tree
  rewrite. Every variable with a replacement is replaced by it, simultaneously.
\<close>

fun substitute_map :: "(string \<Rightarrow> expr option) \<Rightarrow> expr \<Rightarrow> expr" where
  "substitute_map m ExprUndefined = ExprUndefined"
| "substitute_map m (IntImm n) = IntImm n"
| "substitute_map m (Variable v) = (case m v of Some e \<Rightarrow> e | None \<Rightarrow> Variable v)"
| "substitute_map m (BinOp b l r) = BinOp b (substitute_map m l) (substitute_map m r)"
| "substitute_map m (Call f as ct vi) = Call f (map (substitute_map m) as) ct vi"

definition substitute :: "string \<Rightarrow> expr \<Rightarrow> expr \<Rightarrow> expr" where
  "substitute n v e = substitute_map (Map.empty(n \<mapsto> v)) e"

text \<open>
  Modelled from the spec: \<^verbatim>\<open>expr_uses_vars\<close> (ExprUsesVar.h) is not in the sources; it
  is used as the test "the predicate depends on a lifted reduction variable".
\<close>

fun expr_uses_vars :: "expr \<Rightarrow> string set \<Rightarrow> bool" where
  "expr_uses_vars ExprUndefined sc = False"
| "expr_uses_vars (IntImm n) sc = False"
| "expr_uses_vars (Variable v) sc = (v \<in> sc)"
| "expr_uses_vars (BinOp b l r) sc = (expr_uses_vars l sc \<or> expr_uses_vars r sc)"
| "expr_uses_vars (Call f as ct vi) sc = (\<exists>a \<in> set as. expr_uses_vars a sc)"

text \<open>
  \<^verbatim>\<open>SubstituteSelfReference\<close>: every call to the function \<open>func\<close> becomes a call to
  \<open>substitute_fn\<close> with \<open>new_args\<close> appended to its arguments.
\<close>

fun substitute_self_reference :: "expr \<Rightarrow> string \<Rightarrow> string \<Rightarrow> string list \<Rightarrow> expr" where
  "substitute_self_reference ExprUndefined func substitute_fn new_args = ExprUndefined"
| "substitute_self_reference (IntImm n) func substitute_fn new_args = IntImm n"
| "substitute_self_reference (Variable v) func substitute_fn new_args = Variable v"
| "substitute_self_reference (BinOp b l r) func substitute_fn new_args =
     BinOp b (substitute_self_reference l func substitute_fn new_args)
             (substitute_self_reference r func substitute_fn new_args)"
| "substitute_self_reference (Call c as ct vi) func substitute_fn new_args =
     (let as' = map (\<lambda>a. substitute_self_reference a func substitute_fn new_args) as in
      if ct = CallHalide \<and> func = c
        then Call substitute_fn (as' @ map Variable new_args) CallHalide vi
      else Call c as' ct vi)"

subsection \<open>Replaying the split history on the reduction domain\<close>

text \<open>
  The reduction variables, predicates, arguments and values that the replay rewrites
  together.
\<close>

record replay =
  r_rvars :: "reduction_variable list"
  r_predicates :: "expr list"
  r_args :: "expr list"
  r_values :: "expr list"

definition substitute_var_in_replay :: "string \<Rightarrow> expr \<Rightarrow> replay \<Rightarrow> replay" where
  "substitute_var_in_replay n v r =
     r\<lparr>r_predicates := map (substitute n v) (r_predicates r),
       r_args := map (substitute n v) (r_args r),
       r_values := map (substitute n v) (r_values r)\<rparr>"

definition apply_one_result :: "replay \<Rightarrow> apply_split_result \<Rightarrow> replay" where
  "apply_one_result r res =
     (if res_type res = Substitution \<or> res_type res = LetStmt
        then substitute_var_in_replay (res_name res) (res_value res) r
      else r\<lparr>r_predicates := r_predicates r @ [res_value res]\<rparr>)"

definition apply_split_result_fn ::
  "(string \<times> expr) list \<Rightarrow> apply_split_result list \<Rightarrow> replay \<Rightarrow> replay" where
  "apply_split_result_fn bounds_let_stmts splits_result r =
     foldl (\<lambda>r' l. substitute_var_in_replay (fst l) (snd l) r')
       (foldl apply_one_result r splits_result) bounds_let_stmts"

fun find_rvar :: "reduction_variable list \<Rightarrow> string \<Rightarrow> nat option" where
  "find_rvar [] v = None"
| "find_rvar (rv # rvs) v =
     (if v = rv_var rv then Some 0
      else (case find_rvar rvs v of None \<Rightarrow> None | Some i \<Rightarrow> Some (Suc i)))"

definition apply_externals ::
  "externals \<Rightarrow> split \<Rightarrow> (string \<Rightarrow> expr option) \<Rightarrow> replay \<Rightarrow> replay" where
  "apply_externals ext s dim_extent_alignment r =
     apply_split_result_fn (compute_loop_bounds_after_split ext s)
       (apply_split_ext ext s dim_extent_alignment) r"

definition apply_split ::
  "externals \<Rightarrow> split \<Rightarrow> (string \<Rightarrow> expr option) \<Rightarrow> replay \<Rightarrow> replay option" where
  "apply_split ext s dim_extent_alignment r =
     (case find_rvar (r_rvars r) (old_var s) of
        None \<Rightarrow> None
      | Some i \<Rightarrow>
          (let old_extent = rv_extent (r_rvars r ! i);
               rv_inner = \<lparr>rv_var = inner s, rv_min = IntImm 0, rv_extent = factor s\<rparr>;
               rv_outer = \<lparr>rv_var = outer s, rv_min = IntImm 0,
                            rv_extent = simplify ext
                              (BinOp Div (BinOp Add (BinOp Sub old_extent (IntImm 1)) (factor s))
                                         (factor s))\<rparr>
           in Some (apply_externals ext s dim_extent_alignment
                (r\<lparr>r_rvars := take i (r_rvars r) @ [rv_inner, rv_outer]
                                 @ drop (Suc i) (r_rvars r)\<rparr>))))"

definition apply_fuse ::
  "externals \<Rightarrow> split \<Rightarrow> (string \<Rightarrow> expr option) \<Rightarrow> replay \<Rightarrow> replay option" where
  "apply_fuse ext s dim_extent_alignment r =
     (case (find_rvar (r_rvars r) (outer s), find_rvar (r_rvars r) (inner s)) of
        (Some io, Some ii) \<Rightarrow>
          (let extent = BinOp Mul (rv_extent (r_rvars r ! io)) (rv_extent (r_rvars r ! ii));
               fused = (r_rvars r)[io := \<lparr>rv_var = old_var s, rv_min = IntImm 0, rv_extent = extent\<rparr>]
           in Some (apply_externals ext s dim_extent_alignment
                (r\<lparr>r_rvars := take ii fused @ drop (Suc ii) fused\<rparr>)))
      | _ \<Rightarrow> None)"

definition apply_purify ::
  "externals \<Rightarrow> split \<Rightarrow> (string \<Rightarrow> expr option) \<Rightarrow> replay \<Rightarrow> replay option" where
  "apply_purify ext s dim_extent_alignment r =
     (case find_rvar (r_rvars r) (old_var s) of
        None \<Rightarrow> None
      | Some i \<Rightarrow>
          Some (apply_externals ext s dim_extent_alignment
            (r\<lparr>r_rvars := take i (r_rvars r) @ drop (Suc i) (r_rvars r)\<rparr>)))"

definition apply_rename ::
  "externals \<Rightarrow> split \<Rightarrow> (string \<Rightarrow> expr option) \<Rightarrow> replay \<Rightarrow> replay option" where
  "apply_rename ext s dim_extent_alignment r =
     (case find_rvar (r_rvars r) (old_var s) of
        None \<Rightarrow> None
      | Some i \<Rightarrow>
          Some (apply_externals ext s dim_extent_alignment
            (r\<lparr>r_rvars := (r_rvars r)[i := (r_rvars r ! i)\<lparr>rv_var := outer s\<rparr>]\<rparr>)))"

definition rvar_bounds_of :: "externals \<Rightarrow> reduction_variable \<Rightarrow> (string \<times> expr) list" where
  "rvar_bounds_of ext rv =
     [(rv_var rv @ ''.loop_min'', rv_min rv),
      (rv_var rv @ ''.loop_max'',
         simplify ext (BinOp Sub (BinOp Add (rv_min rv) (rv_extent rv)) (IntImm 1))),
      (rv_var rv @ ''.loop_extent'', rv_extent rv)]"

definition apply_split_directive :: "externals \<Rightarrow> split \<Rightarrow> replay \<Rightarrow> replay option" where
  "apply_split_directive ext s r =
     (let dim_extent_alignment =
            foldl (\<lambda>m rv. m(rv_var rv \<mapsto> rv_extent rv)) Map.empty (r_rvars r);
          rvar_bounds = concat (map (rvar_bounds_of ext) (r_rvars r));
          found =
            (if split_type s = SplitVar then apply_split ext s dim_extent_alignment r
             else if split_type s = FuseVars then apply_fuse ext s dim_extent_alignment r
             else if split_type s = PurifyRVar then apply_purify ext s dim_extent_alignment r
             else apply_rename ext s dim_extent_alignment r)
      in
      case found of
        None \<Rightarrow> None
      | Some r' \<Rightarrow>
          Some (foldl (\<lambda>r'' l. substitute_var_in_replay (fst l) (snd l) r'') r' rvar_bounds))"

text \<open>
  The loop of \<^verbatim>\<open>rfactor\<close> over the split history: a directive that applies to the
  reduction domain is applied and dropped, the others are kept in \<open>temp\<close>.
\<close>

fun replay_splits :: "externals \<Rightarrow> split list \<Rightarrow> replay \<Rightarrow> split list \<Rightarrow> replay \<times> split list" where
  "replay_splits ext [] r temp = (r, temp)"
| "replay_splits ext (s # ss) r temp =
     (case apply_split_directive ext s r of
        None \<Rightarrow> replay_splits ext ss r (temp @ [s])
      | Some r' \<Rightarrow> replay_splits ext ss r' temp)"

subsection \<open>rfactor\<close>

text \<open>
  Modelled from the spec: the construction of a \<^verbatim>\<open>Func\<close> and of its definitions
  (\<^verbatim>\<open>Func intm(name)\<close>, \<^verbatim>\<open>intm(args) = Tuple(vals)\<close>, \<^verbatim>\<open>intm.update(0)\<close>;
  Func.h and Function.cpp) is not in the sources. Following section 4.7, steps 5 to 7, the
  intermediate function is the record of its name, the arguments and values of its pure
  (init) definition, its storage dimensions (one per pure argument), and its update
  definition as a stage whose arguments and values are the ones assigned, whose reduction
  domain and predicate are those of \<^verbatim>\<open>intm_rdom\<close>, and whose \<open>dims\<close> and \<open>splits\<close> are
  the ones \<^verbatim>\<open>rfactor\<close> copies into it.
\<close>

record func =
  fn_name :: string
  init_args :: "string list"
  init_values :: "expr list"
  update0 :: stage

text \<open>The validation of the pairs \<open>(rvar, var)\<close> of \<open>preserved\<close>, setting \<^verbatim>\<open>is_rfactored\<close>.\<close>

fun rfactor_validate :: "dim list \<Rightarrow> (string \<times> string) list \<Rightarrow> bool list \<Rightarrow> error + bool list" where
  "rfactor_validate ds [] is_rfactored = Inr is_rfactored"
| "rfactor_validate ds (p # ps) is_rfactored =
     (case find_dim ds (fst p) of
        Inl e \<Rightarrow> Inl e
      | Inr None \<Rightarrow> Inl NotInReductionDomain
      | Inr (Some i) \<Rightarrow>
          (if \<not> dim_is_rvar (ds ! i) then Inl NotInReductionDomain
           else
             (case find_dim ds (snd p) of
                Inl e \<Rightarrow> Inl e
              | Inr (Some j) \<Rightarrow> Inl NameCollision
              | Inr None \<Rightarrow> rfactor_validate ds ps (is_rfactored[i := True]))))"

text \<open>
  The loop for a non-commutative operator, from \<open>i = dims.size() - 1\<close> down to \<open>0\<close>,
  with \<^verbatim>\<open>last_rvar\<close>; \<open>True\<close> when its \<^verbatim>\<open>user_assert\<close> fails.
\<close>

fun noncommutative_violation :: "dim list \<Rightarrow> bool list \<Rightarrow> nat \<Rightarrow> int \<Rightarrow> bool" where
  "noncommutative_violation ds is_rfactored 0 last_rvar = False"
| "noncommutative_violation ds is_rfactored (Suc i) last_rvar =
     (if last_rvar \<noteq> - 1 \<and> is_rfactored ! i \<and> \<not> is_rfactored ! nat last_rvar then True
      else noncommutative_violation ds is_rfactored i
             (if dim_is_rvar (ds ! i) then int i else last_rvar))"

text \<open>\<^verbatim>\<open>std::find_if\<close> over names with \<^verbatim>\<open>var_name_match(candidate, name)\<close>.\<close>

fun any_match :: "string \<Rightarrow> string list \<Rightarrow> error + bool" where
  "any_match candidate [] = Inr False"
| "any_match candidate (n # ns) =
     (case var_name_match candidate n of
        Inl e \<Rightarrow> Inl e
      | Inr True \<Rightarrow> Inr True
      | Inr False \<Rightarrow> any_match candidate ns)"

text \<open>The reduction variables that match none of the names, and those that match one.\<close>

fun partition_rvars ::
  "reduction_variable list \<Rightarrow> string list
     \<Rightarrow> error + (reduction_variable list \<times> reduction_variable list)" where
  "partition_rvars [] ns = Inr ([], [])"
| "partition_rvars (rv # rvs) ns =
     (case any_match (rv_var rv) ns of
        Inl e \<Rightarrow> Inl e
      | Inr m \<Rightarrow>
          (case partition_rvars rvs ns of
             Inl e \<Rightarrow> Inl e
           | Inr (unmatched, matched) \<Rightarrow>
               Inr (if m then (unmatched, rv # matched) else (rv # unmatched, matched))))"

text \<open>
  The position of the first reduction variable that matches \<open>n\<close>, or the length of the
  list (\<^verbatim>\<open>rvars.end()\<close>).
\<close>

fun find_rvar_match :: "reduction_variable list \<Rightarrow> string \<Rightarrow> error + nat" where
  "find_rvar_match [] n = Inr 0"
| "find_rvar_match (rv # rvs) n =
     (case var_name_match (rv_var rv) n of
        Inl e \<Rightarrow> Inl e
      | Inr True \<Rightarrow> Inr 0
      | Inr False \<Rightarrow>
          (case find_rvar_match rvs n of Inl e \<Rightarrow> Inl e | Inr k \<Rightarrow> Inr (Suc k)))"

fun preserved_keys :: "reduction_variable list \<Rightarrow> (string \<times> string) list \<Rightarrow> error + nat list" where
  "preserved_keys rvs [] = Inr []"
| "preserved_keys rvs (p # ps) =
     (case find_rvar_match rvs (fst p) of
        Inl e \<Rightarrow> Inl e
      | Inr k \<Rightarrow> (case preserved_keys rvs ps of Inl e \<Rightarrow> Inl e | Inr ks \<Rightarrow> Inr (k # ks)))"

text \<open>
  The substitution of each kept reduction variable by its pure variable; a kept name
  with no reduction variable dereferences \<^verbatim>\<open>rvars.end()\<close>.
\<close>

fun kept_substitutions ::
  "reduction_variable list \<Rightarrow> (string \<times> string) list \<Rightarrow> (string \<Rightarrow> expr option)
     \<Rightarrow> error + (string \<Rightarrow> expr option)" where
  "kept_substitutions rvs [] m = Inr m"
| "kept_substitutions rvs (p # ps) m =
     (case find_rvar_match rvs (fst p) of
        Inl e \<Rightarrow> Inl e
      | Inr k \<Rightarrow>
          (if k < length rvs
             then kept_substitutions rvs ps (m(rv_var (rvs ! k) \<mapsto> Variable (snd p)))
           else Inl UndefinedBehaviour))"

text \<open>The purify directives on the update definition of the intermediate function.\<close>

fun purify_all :: "(string \<times> string) list \<Rightarrow> stage \<Rightarrow> unit outcome" where
  "purify_all [] u = Done () u"
| "purify_all (p # ps) u =
     (case purify \<lparr>name = fst p, is_rvar = True\<rparr> \<lparr>name = snd p, is_rvar = False\<rparr> u of
        Raised e u' \<Rightarrow> Raised e u'
      | Done x u' \<Rightarrow> purify_all ps u')"

text \<open>
  The pure variables of the init definition that are missing in \<open>dims\<close> are inserted
  before the last dimension.
\<close>

fun add_pure_dims :: "string list \<Rightarrow> stage \<Rightarrow> unit outcome" where
  "add_pure_dims [] s = Done () s"
| "add_pure_dims (v # vs) s =
     (case find_dim (dims s) v of
        Inl e \<Rightarrow> Raised e s
      | Inr (Some i) \<Rightarrow> add_pure_dims vs s
      | Inr None \<Rightarrow>
          (if dims s = [] then Raised UndefinedBehaviour s
           else add_pure_dims vs
                  (s\<lparr>dims := butlast (dims s)
                       @ [\<lparr>var = v, for_type = Serial, device_api = DeviceNone, dim_type = PureVar\<rparr>,
                          last (dims s)]\<rparr>)))"

fun remove_dimensions :: "string list \<Rightarrow> stage \<Rightarrow> unit outcome" where
  "remove_dimensions [] s = Done () s"
| "remove_dimensions (v # vs) s =
     (case remove_dimension v s of
        Raised e s' \<Rightarrow> Raised e s'
      | Done x s' \<Rightarrow> remove_dimensions vs s')"

text \<open>
  The replacements of the symbolic operands of the operator pattern; \<^verbatim>\<open>emplace\<close> keeps
  the first entry of a name, as \<open>map_of\<close> does.
\<close>

definition replacement_entries ::
  "associative_op \<Rightarrow> nat \<Rightarrow> string \<Rightarrow> string \<Rightarrow> expr list \<Rightarrow> expr list \<Rightarrow> (string \<times> expr) list" where
  "replacement_entries prover_result n func intm_name f_store_args f_load_args =
     concat (map (\<lambda>i.
       (if ys prover_result ! i \<noteq> []
          then [(ys prover_result ! i,
                 Call intm_name f_load_args CallHalide (if n = 1 then 0 else i))]
        else [])
       @ (if xs prover_result ! i \<noteq> []
            then [(xs prover_result ! i, Call func f_store_args CallHalide i)]
          else [])) [0..<n])"

text \<open>
  \<^verbatim>\<open>Stage::rfactor(preserved)\<close>, with \<open>preserved\<close> the pairs of the name of a reduction
  variable to keep and the name of the pure variable that replaces it in the intermediate
  function. It returns the intermediate function.
\<close>

definition rfactor :: "externals \<Rightarrow> (string \<times> string) list \<Rightarrow> stage \<Rightarrow> func outcome" where
  "rfactor ext preserved s =
     (if is_init s then Raised NotUpdateDefinition s else
      let prover_result = prove_associativity ext (func_name s) (args s) (def_values s) in
      if \<not> associative prover_result then Raised NotAssociative s
      else if length (ops prover_result) \<noteq> length (def_values s) then Raised InternalError s
      else
     (case rfactor_validate (dims s) preserved (replicate (length (dims s)) False) of
        Inl e \<Rightarrow> Raised e s
      | Inr is_rfactored \<Rightarrow>
      if \<not> commutative prover_result
         \<and> noncommutative_violation (dims s) is_rfactored (length (dims s)) (- 1)
        then Raised NonCommutativeOrderViolation s
      else
      let (r, temp) = replay_splits ext (splits s)
                        \<lparr>r_rvars = rvars s, r_predicates = predicates s,
                         r_args = args s, r_values = def_values s\<rparr> [];
          s1 = s\<lparr>args := r_args r, def_values := r_values r, rvars := r_rvars r, splits := temp\<rparr>
      in
     (case partition_rvars (rvars s1) (map fst preserved) of
        Inl e \<Rightarrow> Raised e s1
      | Inr (intm_rvars, matched) \<Rightarrow>
     (case preserved_keys (rvars s1) preserved of
        Inl e \<Rightarrow> Raised e s1
      | Inr keys \<Rightarrow>
      let preserved_sorted = map snd (sort_key fst (zip keys preserved));
          rvars_kept = map fst preserved_sorted;
          vars_rename = map snd preserved_sorted
      in
     (case partition_rvars (rvars s1) rvars_kept of
        Inl e \<Rightarrow> Raised e s1
      | Inr (removed, kept) \<Rightarrow>
      let rvars_removed = map rv_var removed;
          s2 = s1\<lparr>rvars := kept\<rparr>;
          init_args_intm = dim_vars s2 @ vars_rename;
          n = length (def_values s2)
      in
      if length (identities prover_result) < n then Raised UndefinedBehaviour s2
      else
      let init_vals = take n (identities prover_result);
          intm_name = unique_name ext (func_name s2 @ ''_intm'');
          lifted_map = foldl (\<lambda>m rv. m(rv_var rv \<mapsto> Variable (rv_var rv))) Map.empty intm_rvars
      in
     (case kept_substitutions (rvars s2) preserved_sorted lifted_map of
        Inl e \<Rightarrow> Raised e s2
      | Inr substitution_map \<Rightarrow>
      let update_args = map (substitute_map substitution_map) (args s2) @ map Variable vars_rename;
          scope = set (map rv_var intm_rvars);
          intm_predicates = map (substitute_map substitution_map) (r_predicates r);
          s3 = s2\<lparr>predicates := filter (\<lambda>pred. \<not> expr_uses_vars pred scope) (r_predicates r)\<rparr>;
          update_vals = map (\<lambda>v. substitute_self_reference (substitute_map substitution_map v)
                                     (func_name s3) intm_name vars_rename) (def_values s3)
      in
      if length init_args_intm \<noteq> length (storage_dims s3) + length vars_rename
        then Raised InternalError s3
      else
      let u0 = \<lparr>func_name = intm_name, stage_index = 1, dim_vars = init_args_intm,
                is_init = False, args = update_args, def_values = update_vals,
                predicates = intm_predicates, dims = dims s3, splits = splits s3,
                rvars = intm_rvars, allow_race_conditions = False, atomic = False,
                override_atomic_associativity_test = False, fuse_level = LevelInlined,
                storage_dims = storage_dims s3
                                 @ drop (length (storage_dims s3)) init_args_intm\<rparr>
      in
     (case purify_all preserved_sorted u0 of
        Raised e u \<Rightarrow> Raised e s3
      | Done x u \<Rightarrow>
      let intm = \<lparr>fn_name = intm_name, init_args = init_args_intm, init_values = init_vals,
                  update0 = u\<rparr>
      in
     (case add_pure_dims (dim_vars s3) s3 of
        Raised e s4 \<Rightarrow> Raised e s4
      | Done x s4 \<Rightarrow>
     (case remove_dimensions rvars_removed s4 of
        Raised e s5 \<Rightarrow> Raised e s5
      | Done x s5 \<Rightarrow>
      let f_store_args = map Variable (dim_vars s5);
          f_load_args = map Variable (dim_vars s5) @ map (\<lambda>rv. Variable (rv_var rv)) (rvars s5)
      in
      if length f_load_args \<noteq> length init_args_intm then Raised InternalError s5
      else if length (xs prover_result) < n \<or> length (ys prover_result) < n
        then Raised UndefinedBehaviour s5
      else
      let replacements = map_of (replacement_entries prover_result n (func_name s5) intm_name
                                   f_store_args f_load_args);
          f_values = map (\<lambda>i. substitute_map replacements (ops prover_result ! i)) [0..<n]
      in Done intm (s5\<lparr>args := f_store_args, def_values := f_values\<rparr>))))))))))"

subsection \<open>Example inputs\<close>

text \<open>
  The inputs of the concrete statements below: a prover that certifies the sum (operator
  \<open>x + y\<close>, identity \<open>0\<close>), one that certifies the difference as associative but not
  commutative, and the update definition \<open>f(x) = f(x) + h(x, r)\<close> over \<open>r\<close> in
  \<open>[0, 10)\<close> with its default loop nest \<open>r, x, __outermost\<close>.
\<close>

definition sum_op :: associative_op where
  "sum_op = \<lparr>associative = True, commutative = True,
     ops = [BinOp Add (Variable ''x'') (Variable ''y'')], identities = [IntImm 0],
     xs = [''x''], ys = [''y'']\<rparr>"

definition difference_op :: associative_op where
  "difference_op = \<lparr>associative = True, commutative = False,
     ops = [BinOp Sub (Variable ''x'') (Variable ''y'')], identities = [IntImm 0],
     xs = [''x''], ys = [''y'']\<rparr>"

fun constant_can_prove :: "expr \<Rightarrow> bool" where
  "constant_can_prove (BinOp GE (IntImm a) (IntImm b)) = (b \<le> a)"
| "constant_can_prove e = False"

definition example_externals :: "associative_op \<Rightarrow> externals" where
  "example_externals answer =
     \<lparr>prove_associativity = (\<lambda>f a v. answer), simplify = (\<lambda>e. e),
      can_prove = constant_can_prove, apply_split_ext = (\<lambda>s m. []),
      compute_loop_bounds_after_split = (\<lambda>s. []), unique_name = (\<lambda>n. n)\<rparr>"

definition serial_dim :: "string \<Rightarrow> dim_kind \<Rightarrow> dim" where
  "serial_dim n k = \<lparr>var = n, for_type = Serial, device_api = DeviceNone, dim_type = k\<rparr>"

definition sum_stage :: stage where
  "sum_stage =
     \<lparr>func_name = ''f'', stage_index = 1, dim_vars = [''x''], is_init = False,
      args = [Variable ''x''],
      def_values = [BinOp Add (Call ''f'' [Variable ''x''] CallHalide 0)
                              (Call ''h'' [Variable ''x'', Variable ''r''] CallHalide 0)],
      predicates = [],
      dims = [serial_dim ''r'' ImpureRVar, serial_dim ''x'' PureVar,
              serial_dim ''__outermost'' PureVar],
      splits = [],
      rvars = [\<lparr>rv_var = ''r'', rv_min = IntImm 0, rv_extent = IntImm 10\<rparr>],
      allow_race_conditions = False, atomic = False,
      override_atomic_associativity_test = False, fuse_level = LevelInlined,
      storage_dims = [''x'']\<rparr>"

text \<open>
  The update definition \<open>f(x) = f(x) - h(r0, r1)\<close> over two reduction variables, with
  \<open>r1\<close> the inner loop and \<open>r0\<close> the outer one.
\<close>

definition difference_stage :: stage where
  "difference_stage =
     \<lparr>func_name = ''f'', stage_index = 1, dim_vars = [''x''], is_init = False,
      args = [Variable ''x''],
      def_values = [BinOp Sub (Call ''f'' [Variable ''x''] CallHalide 0)
                              (Call ''h'' [Variable ''r0'', Variable ''r1''] CallHalide 0)],
      predicates = [],
      dims = [serial_dim ''r1'' ImpureRVar, serial_dim ''r0'' ImpureRVar,
              serial_dim ''x'' PureVar, serial_dim ''__outermost'' PureVar],
      splits = [],
      rvars = [\<lparr>rv_var = ''r1'', rv_min = IntImm 0, rv_extent = IntImm 4\<rparr>,
               \<lparr>rv_var = ''r0'', rv_min = IntImm 0, rv_extent = IntImm 4\<rparr>],
      allow_race_conditions = False, atomic = False,
      override_atomic_associativity_test = False, fuse_level = LevelInlined,
      storage_dims = [''x'']\<rparr>"



section \<open>Theorems\<close>

subsection \<open>Auxiliary facts\<close>

lemma var_name_match_nodot:
  "CHR ''.'' \<notin> set n \<Longrightarrow> var_name_match c n = Inr (c = n \<or> ends_with c (''.'' @ n))"
  by (simp add: var_name_match_def)

lemma var_name_match_Inl: "var_name_match c n = Inl e \<Longrightarrow> e = InternalError"
  by (auto simp: var_name_match_def split: if_splits)

lemma find_dim_Inl: "find_dim ds v = Inl e \<Longrightarrow> e = InternalError"
  by (induction ds) (auto dest: var_name_match_Inl split: sum.splits bool.splits option.splits)

lemma name_collides_Some:
  "name_collides c ns old = Some e \<Longrightarrow> e = NameCollision \<or> e = InternalError"
  by (induction ns) (auto dest: var_name_match_Inl split: sum.splits if_splits)

lemma check_new_names_Some:
  "check_new_names ds ns old = Some e \<Longrightarrow> e = NameCollision \<or> e = InternalError"
  by (induction ds) (auto dest: name_collides_Some split: option.splits)



lemma ball_upt_nth: "(\<forall>i\<in>set [0..<length ds]. P (ds ! i)) = (\<forall>d\<in>set ds. P d)"
  by (auto simp: all_set_conv_all_nth)

lemma bex_upt_nth: "(\<exists>i\<in>set [0..<length ds]. P (ds ! i)) = (\<exists>d\<in>set ds. P d)"
  using ball_upt_nth[of ds "\<lambda>d. \<not> P d"] by blast

subsection \<open>Frame of atomic and allow\_race\_conditions\<close>

text \<open>
  Claim C10. \<^verbatim>\<open>atomic(override_associativity_test)\<close> and
  \<^verbatim>\<open>allow_race_conditions()\<close> validate nothing, so they always return, and they write
  only the flags: \<open>atomic\<close> and \<open>override_atomic_associativity_test\<close> for the first,
  \<open>allow_race_conditions\<close> for the second. The dimension list, the split history, the
  reduction domain and every other field of the stage are as before.
\<close>

theorem atomic_allow_race_conditions_frame:
  "atomic (atomic_directive b s) = True
   \<and> override_atomic_associativity_test (atomic_directive b s) = b
   \<and> atomic_directive b s
       = s\<lparr>atomic := atomic (atomic_directive b s),
            override_atomic_associativity_test :=
              override_atomic_associativity_test (atomic_directive b s)\<rparr>
   \<and> dims (atomic_directive b s) = dims s
   \<and> splits (atomic_directive b s) = splits s
   \<and> rvars (atomic_directive b s) = rvars s
   \<and> predicates (atomic_directive b s) = predicates s
   \<and> allow_race_conditions (atomic_directive b s) = allow_race_conditions s
   \<and> allow_race_conditions (allow_race_conditions_directive s) = True
   \<and> allow_race_conditions_directive s
       = s\<lparr>allow_race_conditions := allow_race_conditions (allow_race_conditions_directive s)\<rparr>
   \<and> dims (allow_race_conditions_directive s) = dims s
   \<and> splits (allow_race_conditions_directive s) = splits s
   \<and> rvars (allow_race_conditions_directive s) = rvars s
   \<and> predicates (allow_race_conditions_directive s) = predicates s
   \<and> atomic (allow_race_conditions_directive s) = atomic s
   \<and> override_atomic_associativity_test (allow_race_conditions_directive s)
       = override_atomic_associativity_test s"
  by (simp add: atomic_directive_def allow_race_conditions_directive_def)

subsection \<open>rfactor of a sum over one reduction variable\<close>

text \<open>
  Claim C1. For the stage \<open>f(x)\<close> with reduction domain \<open>r\<close> in \<open>[0, 10)\<close> and the single
  update \<open>f(x) = f(x) + h(x, r)\<close>, \<^verbatim>\<open>rfactor\<close> with an empty preserved list, under a
  prover that answers with the operator \<open>xn + yn\<close> and the identity \<open>0\<close>, returns an
  intermediate function whose init definition has the argument \<open>x\<close> and the value \<open>0\<close>,
  whose update definition is \<open>f_intm(x) = f_intm(x) + h(x, r)\<close> over the same domain
  (the update stage is the original one but for the function name and the rewritten
  self-reference), and it rewrites the original update in place to
  \<open>f(x) = f(x) + f_intm(x)\<close>: the arguments are the pure arguments, the value is the
  operator pattern with the accumulator operand replaced by the load of \<open>f\<close> and the other
  operand by the call of the intermediate, the reduction domain is empty and the loop over
  \<open>r\<close> is gone.
\<close>

theorem rfactor_sum_lifts_everything:
  assumes "prove_associativity ext ''f'' [Variable ''x'']
             [BinOp Add (Call ''f'' [Variable ''x''] CallHalide 0)
                        (Call ''h'' [Variable ''x'', Variable ''r''] CallHalide 0)]
           = \<lparr>associative = True, commutative = c,
               ops = [BinOp Add (Variable xn) (Variable yn)], identities = [IntImm 0],
               xs = [xn], ys = [yn]\<rparr>"
    and "xn \<noteq> []" and "yn \<noteq> []" and "xn \<noteq> yn"
  shows "rfactor ext [] sum_stage =
     Done
       \<lparr>fn_name = unique_name ext ''f_intm'', init_args = [''x''], init_values = [IntImm 0],
        update0 = sum_stage
          \<lparr>func_name := unique_name ext ''f_intm'',
           def_values :=
             [BinOp Add (Call (unique_name ext ''f_intm'') [Variable ''x''] CallHalide 0)
                        (Call ''h'' [Variable ''x'', Variable ''r''] CallHalide 0)]\<rparr>\<rparr>
       (sum_stage
          \<lparr>rvars := [],
           dims := [serial_dim ''x'' PureVar, serial_dim ''__outermost'' PureVar],
           def_values :=
             [BinOp Add (Call ''f'' [Variable ''x''] CallHalide 0)
                        (Call (unique_name ext ''f_intm'') [Variable ''x''] CallHalide 0)]\<rparr>)"
  using assms
  by (simp add: rfactor_def sum_stage_def serial_dim_def Let_def remove_dimension_def
      replacement_entries_def ends_with_def dim_is_rvar_def var_name_match_def)

theorem rfactor_sum_lifts_everything_witness:
  "rfactor (example_externals sum_op) [] sum_stage =
     Done
       \<lparr>fn_name = ''f_intm'', init_args = [''x''], init_values = [IntImm 0],
        update0 = sum_stage
          \<lparr>func_name := ''f_intm'',
           def_values :=
             [BinOp Add (Call ''f_intm'' [Variable ''x''] CallHalide 0)
                        (Call ''h'' [Variable ''x'', Variable ''r''] CallHalide 0)]\<rparr>\<rparr>
       (sum_stage
          \<lparr>rvars := [],
           dims := [serial_dim ''x'' PureVar, serial_dim ''__outermost'' PureVar],
           def_values :=
             [BinOp Add (Call ''f'' [Variable ''x''] CallHalide 0)
                        (Call ''f_intm'' [Variable ''x''] CallHalide 0)]\<rparr>)
   \<and> rvars (update0 \<lparr>fn_name = ''f_intm'', init_args = [''x''], init_values = [IntImm 0],
        update0 = sum_stage
          \<lparr>func_name := ''f_intm'',
           def_values :=
             [BinOp Add (Call ''f_intm'' [Variable ''x''] CallHalide 0)
                        (Call ''h'' [Variable ''x'', Variable ''r''] CallHalide 0)]\<rparr>\<rparr>)
      = [\<lparr>rv_var = ''r'', rv_min = IntImm 0, rv_extent = IntImm 10\<rparr>]"
  using rfactor_sum_lifts_everything
          [of "example_externals sum_op" True "''x''" "''y''"]
  by (simp add: example_externals_def sum_op_def sum_stage_def)

subsection \<open>The public split of a reduction variable\<close>

text \<open>
  Claim C9. When the public \<^verbatim>\<open>split\<close> is called on a reduction variable
  (\<open>is_rvar old\<close>), an outer or inner name that is a pure variable is rejected, and the
  split runs in exact mode: a requested tail strategy other than \<open>Auto\<close> and
  \<open>GuardWithIf\<close> never succeeds, and it is rejected as an invalid tail strategy once the
  names pass their checks; with \<open>Auto\<close> or \<open>GuardWithIf\<close> and names that pass, the
  call succeeds; and every successful call appends an exact split whose tail strategy
  is \<open>GuardWithIf\<close>.
\<close>

theorem split_rvar_exact_guard_with_if:
  assumes "is_rvar old"
  shows "(\<not> is_rvar outer_v \<or> \<not> is_rvar inner_v
            \<longrightarrow> split_var ext old outer_v inner_v fac tail_req s = Raised VarKindMismatch s)
       \<and> (tail_req \<noteq> Auto \<and> tail_req \<noteq> GuardWithIf
            \<longrightarrow> \<not> is_done (split_var ext old outer_v inner_v fac tail_req s))
       \<and> (is_rvar outer_v \<and> is_rvar inner_v
            \<and> check_new_names (dims s) [name inner_v, name outer_v] (name old) = None
            \<and> (\<exists>i. find_dim (dims s) (name old) = Inr (Some i))
            \<longrightarrow> (if tail_req = Auto \<or> tail_req = GuardWithIf
                 then is_done (split_var ext old outer_v inner_v fac tail_req s)
                 else \<exists>s'. split_var ext old outer_v inner_v fac tail_req s
                             = Raised InvalidTailStrategy s'))
       \<and> (\<forall>s'. split_var ext old outer_v inner_v fac tail_req s = Done () s'
            \<longrightarrow> is_rvar outer_v \<and> is_rvar inner_v
                \<and> (\<exists>e. splits s' = splits s @ [e] \<and> split_type e = SplitVar
                       \<and> exact e \<and> tail e = GuardWithIf))"
  using assms
  by (auto simp: split_var_def stage_split_def select_tail_def Let_def
           split: option.splits sum.splits if_splits)

theorem split_rvar_exact_guard_with_if_witness:
  "is_rvar \<lparr>name = ''r'', is_rvar = True\<rparr>
   \<and> split_var (example_externals sum_op) \<lparr>name = ''r'', is_rvar = True\<rparr>
        \<lparr>name = ''ro'', is_rvar = True\<rparr> \<lparr>name = ''ri'', is_rvar = True\<rparr> (IntImm 2) Auto sum_stage
     = Done () (sum_stage
         \<lparr>dims := [serial_dim ''r.ri'' ImpureRVar, serial_dim ''r.ro'' ImpureRVar,
                   serial_dim ''x'' PureVar, serial_dim ''__outermost'' PureVar],
          splits := [\<lparr>old_var = ''r'', outer = ''r.ro'', inner = ''r.ri'', factor = IntImm 2,
                      exact = True, tail = GuardWithIf, split_type = SplitVar\<rparr>]\<rparr>)
   \<and> \<not> is_done (split_var (example_externals sum_op) \<lparr>name = ''r'', is_rvar = True\<rparr>
        \<lparr>name = ''ro'', is_rvar = True\<rparr> \<lparr>name = ''ri'', is_rvar = True\<rparr> (IntImm 2) RoundUp
        sum_stage)"
proof -
  have h: "is_rvar \<lparr>name = ''r'', is_rvar = True\<rparr>" by simp
  have d: "split_var (example_externals sum_op) \<lparr>name = ''r'', is_rvar = True\<rparr>
        \<lparr>name = ''ro'', is_rvar = True\<rparr> \<lparr>name = ''ri'', is_rvar = True\<rparr> (IntImm 2) Auto sum_stage
     = Done () (sum_stage
         \<lparr>dims := [serial_dim ''r.ri'' ImpureRVar, serial_dim ''r.ro'' ImpureRVar,
                   serial_dim ''x'' PureVar, serial_dim ''__outermost'' PureVar],
          splits := [\<lparr>old_var = ''r'', outer = ''r.ro'', inner = ''r.ri'', factor = IntImm 2,
                      exact = True, tail = GuardWithIf, split_type = SplitVar\<rparr>]\<rparr>)"
    by (simp add: split_var_def stage_split_def select_tail_def split_dims_def
          sum_stage_def serial_dim_def var_name_match_def ends_with_def Let_def)
  show ?thesis
    using h d
      split_rvar_exact_guard_with_if [OF h, of "\<lparr>name = ''ro'', is_rvar = True\<rparr>"
        "\<lparr>name = ''ri'', is_rvar = True\<rparr>" "example_externals sum_op" "IntImm 2" RoundUp sum_stage]
    by simp
qed

subsection \<open>The tail strategy chosen for an init definition\<close>




subsection \<open>Name collisions\<close>




subsection \<open>The stage a failed directive leaves\<close>

text \<open>
  Claim C5, as stated, fails. \<^verbatim>\<open>split(x, xo, xi, 8, ShiftInwards)\<close> on the update
  definition raises for its tail strategy after the dimension \<open>x\<close> was replaced by
  \<open>x.xi\<close> and \<open>x.xo\<close>; \<^verbatim>\<open>parallel(r)\<close> without a flag raises the race-condition error
  after \<open>r\<close> was tagged \<open>Parallel\<close>.
\<close>

theorem failed_directive_state_counterexample:
  "split_var (example_externals sum_op) \<lparr>name = ''x'', is_rvar = False\<rparr>
       \<lparr>name = ''xo'', is_rvar = False\<rparr> \<lparr>name = ''xi'', is_rvar = False\<rparr> (IntImm 8)
       ShiftInwards sum_stage
     = Raised InvalidTailStrategy (sum_stage
         \<lparr>dims := [serial_dim ''r'' ImpureRVar, serial_dim ''x.xi'' PureVar,
                   serial_dim ''x.xo'' PureVar, serial_dim ''__outermost'' PureVar]\<rparr>)
   \<and> parallel (example_externals sum_op) \<lparr>name = ''r'', is_rvar = True\<rparr> sum_stage
     = Raised RaceCondition (sum_stage
         \<lparr>dims := [(serial_dim ''r'' ImpureRVar)\<lparr>for_type := Parallel\<rparr>,
                   serial_dim ''x'' PureVar, serial_dim ''__outermost'' PureVar]\<rparr>)
   \<and> dims sum_stage = [serial_dim ''r'' ImpureRVar, serial_dim ''x'' PureVar,
                       serial_dim ''__outermost'' PureVar]"
  by (simp add: split_var_def stage_split_def parallel_def set_dim_type_def
        set_dim_type_body_def race_check_def select_tail_def split_dims_def inner_vars_def
        sum_stage_def serial_dim_def var_name_match_def ends_with_def dim_is_pure_def
        is_parallel_def example_externals_def sum_op_def Let_def upt_rec)

lemma split_failure_state:
  "stage_split ext old outer_v inner_v fac ex tail_req s = Raised e s' \<Longrightarrow>
       splits s' = splits s \<and> rvars s' = rvars s \<and> s' = s\<lparr>dims := dims s'\<rparr>
       \<and> (e \<noteq> InvalidTailStrategy \<longrightarrow> s' = s)
       \<and> (e = InvalidTailStrategy \<longrightarrow>
            (\<exists>i. find_dim (dims s) old = Inr (Some i)
               \<and> dims s' = split_dims (dims s) i (var (dims s ! i) @ ''.'' @ inner_v)
                                (var (dims s ! i) @ ''.'' @ outer_v)))"
  by (auto simp: stage_split_def Let_def dest: find_dim_Inl check_new_names_Some
        split: option.splits sum.splits if_splits)

lemma race_check_dims: "race_check ext (s\<lparr>dims := ds\<rparr>) = race_check ext s"
  by (simp add: race_check_def Let_def)

lemma set_dim_type_body_final:
  "final_stage (set_dim_type_body ext v t i found s) = s
   \<or> final_stage (set_dim_type_body ext v t i found s)
       = s\<lparr>dims := (dims s)[i := (dims s ! i)\<lparr>for_type := t\<rparr>]\<rparr>"
  by (simp add: set_dim_type_body_def Let_def split: sum.splits bool.splits option.splits)

lemma set_dim_type_body_frame:
  assumes "i < length (dims s)"
  shows "\<exists>ds'. final_stage (set_dim_type_body ext v t i found s) = s\<lparr>dims := ds'\<rparr>
            \<and> list_all2 (\<lambda>d d'. d' = d \<or> d' = d\<lparr>for_type := t\<rparr>) (dims s) ds'"
proof -
  have refl: "list_all2 (\<lambda>d d'. d' = d \<or> d' = d\<lparr>for_type := t\<rparr>) (dims s) (dims s)"
    by (simp add: list_all2_conv_all_nth)
  have upd: "list_all2 (\<lambda>d d'. d' = d \<or> d' = d\<lparr>for_type := t\<rparr>) (dims s)
               ((dims s)[i := (dims s ! i)\<lparr>for_type := t\<rparr>])"
    using assms by (simp add: list_all2_conv_all_nth nth_list_update)
  have same: "s = s\<lparr>dims := dims s\<rparr>" by simp
  from set_dim_type_body_final[of ext v t i found s] show ?thesis
  proof
    assume "final_stage (set_dim_type_body ext v t i found s) = s"
    with same have "final_stage (set_dim_type_body ext v t i found s) = s\<lparr>dims := dims s\<rparr>"
      by simp
    with refl show ?thesis by blast
  next
    assume "final_stage (set_dim_type_body ext v t i found s)
              = s\<lparr>dims := (dims s)[i := (dims s ! i)\<lparr>for_type := t\<rparr>]\<rparr>"
    with upd show ?thesis by blast
  qed
qed

lemma retag_trans:
  assumes "list_all2 (\<lambda>d d'. d' = d \<or> d' = d\<lparr>for_type := t\<rparr>) as bs"
    and "list_all2 (\<lambda>d d'. d' = d \<or> d' = d\<lparr>for_type := t\<rparr>) bs cs"
  shows "list_all2 (\<lambda>d d'. d' = d \<or> d' = d\<lparr>for_type := (t::for_type)\<rparr>) as (cs :: dim list)"
proof (rule list_all2_trans[OF _ assms])
  fix a b c :: dim
  assume "b = a \<or> b = a\<lparr>for_type := t\<rparr>" and "c = b \<or> c = b\<lparr>for_type := t\<rparr>"
  then show "c = a \<or> c = a\<lparr>for_type := t\<rparr>" by auto
qed

lemma set_dim_type_loop_frame:
  assumes "\<forall>i\<in>set is. i < length (dims s)"
  shows "\<exists>ds'. final_stage (for_loop (set_dim_type_body ext v t) is found s) = s\<lparr>dims := ds'\<rparr>
            \<and> list_all2 (\<lambda>d d'. d' = d \<or> d' = d\<lparr>for_type := t\<rparr>) (dims s) ds'"
  using assms
proof (induction "is" arbitrary: found s)
  case Nil
  show ?case by (intro exI[of _ "dims s"]) (simp add: list_all2_conv_all_nth)
next
  case (Cons i "is")
  from Cons.prems have i: "i < length (dims s)" by simp
  from set_dim_type_body_frame[OF i, of ext v t found]
  obtain ds1 where fs: "final_stage (set_dim_type_body ext v t i found s) = s\<lparr>dims := ds1\<rparr>"
    and r1: "list_all2 (\<lambda>d d'. d' = d \<or> d' = d\<lparr>for_type := t\<rparr>) (dims s) ds1"
    by blast
  show ?case
  proof (cases "set_dim_type_body ext v t i found s")
    case (Raised e s1)
    with fs r1 show ?thesis by auto
  next
    case (Done f s1)
    with fs have s1: "s1 = s\<lparr>dims := ds1\<rparr>" by simp
    from r1 have len: "length ds1 = length (dims s)" by (simp add: list_all2_lengthD)
    have "\<forall>j\<in>set is. j < length (dims s1)" using Cons.prems s1 len by simp
    from Cons.IH[OF this, of f]
    obtain ds2 where f2: "final_stage (for_loop (set_dim_type_body ext v t) is f s1) = s1\<lparr>dims := ds2\<rparr>"
      and r2: "list_all2 (\<lambda>d d'. d' = d \<or> d' = d\<lparr>for_type := t\<rparr>) (dims s1) ds2"
      by blast
    have "list_all2 (\<lambda>d d'. d' = d \<or> d' = d\<lparr>for_type := t\<rparr>) (dims s) ds2"
      using retag_trans[OF r1] r2 s1 by simp
    moreover have "final_stage (for_loop (set_dim_type_body ext v t) (i # is) found s) = s\<lparr>dims := ds2\<rparr>"
      using Done f2 s1 by simp
    ultimately show ?thesis by blast
  qed
qed

lemma set_dim_type_failure_state:
  assumes "set_dim_type ext v t s = Raised e s'"
  shows "s' = s\<lparr>dims := dims s'\<rparr>
       \<and> list_all2 (\<lambda>d d'. d' = d \<or> d' = d\<lparr>for_type := t\<rparr>) (dims s) (dims s')"
proof -
  have "\<forall>i\<in>set [0..<length (dims s)]. i < length (dims s)" by simp
  from set_dim_type_loop_frame[OF this, of ext v t False]
  obtain ds' where f: "final_stage (for_loop (set_dim_type_body ext v t) [0..<length (dims s)] False s)
                         = s\<lparr>dims := ds'\<rparr>"
    and r: "list_all2 (\<lambda>d d'. d' = d \<or> d' = d\<lparr>for_type := t\<rparr>) (dims s) ds'" by blast
  from assms f have "s' = s\<lparr>dims := ds'\<rparr>"
    by (auto simp: set_dim_type_def split: outcome.splits if_splits)
  with r show ?thesis by simp
qed


lemma reorder_failure_state: "reorder ext vars s = Raised e s' \<Longrightarrow> s' = s"
  by (auto simp: reorder_def Let_def split: sum.splits if_splits)

text \<open>
  Claim C5, amended. A failing \<^verbatim>\<open>split\<close> leaves the split history, the reduction
  domain and all else but the dimension list as they were; it leaves the whole stage as
  it was unless it fails on the tail strategy, and then the dimension list already has
  the split dimension replaced by the inner and the outer one. A failing
  \<^verbatim>\<open>set_dim_type\<close> leaves everything but the dimension list as it was, and each
  dimension is either as it was or differs only by carrying the requested loop type. A
  failing \<^verbatim>\<open>reorder\<close> leaves the stage as it was.
\<close>

theorem failed_directive_state:
  "(stage_split ext old outer_v inner_v fac ex tail_req s = Raised e1 s1 \<longrightarrow>
       splits s1 = splits s \<and> rvars s1 = rvars s \<and> s1 = s\<lparr>dims := dims s1\<rparr>
       \<and> (e1 \<noteq> InvalidTailStrategy \<longrightarrow> s1 = s)
       \<and> (e1 = InvalidTailStrategy \<longrightarrow>
            (\<exists>i. find_dim (dims s) old = Inr (Some i)
               \<and> dims s1 = split_dims (dims s) i (var (dims s ! i) @ ''.'' @ inner_v)
                                (var (dims s ! i) @ ''.'' @ outer_v))))
   \<and> (set_dim_type ext v t s = Raised e2 s2 \<longrightarrow>
         s2 = s\<lparr>dims := dims s2\<rparr>
         \<and> list_all2 (\<lambda>d d'. d' = d \<or> d' = d\<lparr>for_type := t\<rparr>) (dims s) (dims s2))
   \<and> (reorder ext vars s = Raised e3 s3 \<longrightarrow> s3 = s)"
  using split_failure_state[of ext old outer_v inner_v fac ex tail_req s e1 s1]
        set_dim_type_failure_state[of ext v t s e2 s2]
        reorder_failure_state[of ext vars s e3 s3]
  by blast

theorem failed_directive_state_witness:
  "stage_split (example_externals sum_op) ''x'' ''xo'' ''xi'' (IntImm 8) False ShiftInwards sum_stage
     = Raised InvalidTailStrategy (sum_stage
         \<lparr>dims := [serial_dim ''r'' ImpureRVar, serial_dim ''x.xi'' PureVar,
                   serial_dim ''x.xo'' PureVar, serial_dim ''__outermost'' PureVar]\<rparr>)
   \<and> set_dim_type (example_externals sum_op) \<lparr>name = ''r'', is_rvar = True\<rparr> Parallel sum_stage
     = Raised RaceCondition (sum_stage
         \<lparr>dims := [(serial_dim ''r'' ImpureRVar)\<lparr>for_type := Parallel\<rparr>,
                   serial_dim ''x'' PureVar, serial_dim ''__outermost'' PureVar]\<rparr>)
   \<and> reorder (example_externals sum_op) [\<lparr>name = ''y'', is_rvar = False\<rparr>] sum_stage
     = Raised DimensionNotFound sum_stage
   \<and> (\<exists>i. find_dim (dims sum_stage) ''x'' = Inr (Some i)
         \<and> [serial_dim ''r'' ImpureRVar, serial_dim ''x.xi'' PureVar,
            serial_dim ''x.xo'' PureVar, serial_dim ''__outermost'' PureVar]
           = split_dims (dims sum_stage) i (var (dims sum_stage ! i) @ ''.'' @ ''xi'')
                                (var (dims sum_stage ! i) @ ''.'' @ ''xo''))
   \<and> list_all2 (\<lambda>d d'. d' = d \<or> d' = d\<lparr>for_type := Parallel\<rparr>) (dims sum_stage)
        [(serial_dim ''r'' ImpureRVar)\<lparr>for_type := Parallel\<rparr>,
         serial_dim ''x'' PureVar, serial_dim ''__outermost'' PureVar]"
proof -
  let ?s1 = "sum_stage
         \<lparr>dims := [serial_dim ''r'' ImpureRVar, serial_dim ''x.xi'' PureVar,
                   serial_dim ''x.xo'' PureVar, serial_dim ''__outermost'' PureVar]\<rparr>"
  let ?s2 = "sum_stage
         \<lparr>dims := [(serial_dim ''r'' ImpureRVar)\<lparr>for_type := Parallel\<rparr>,
                   serial_dim ''x'' PureVar, serial_dim ''__outermost'' PureVar]\<rparr>"
  have a: "stage_split (example_externals sum_op) ''x'' ''xo'' ''xi'' (IntImm 8) False
             ShiftInwards sum_stage = Raised InvalidTailStrategy ?s1"
    by (simp add: stage_split_def select_tail_def split_dims_def inner_vars_def
          sum_stage_def serial_dim_def var_name_match_def ends_with_def Let_def)
  have b: "set_dim_type (example_externals sum_op) \<lparr>name = ''r'', is_rvar = True\<rparr> Parallel
             sum_stage = Raised RaceCondition ?s2"
    by (simp add: set_dim_type_def set_dim_type_body_def race_check_def
          sum_stage_def serial_dim_def var_name_match_def ends_with_def dim_is_pure_def
          is_parallel_def example_externals_def sum_op_def Let_def upt_rec)
  have c: "reorder (example_externals sum_op) [\<lparr>name = ''y'', is_rvar = False\<rparr>] sum_stage
             = Raised DimensionNotFound sum_stage"
    by (simp add: reorder_def sum_stage_def serial_dim_def var_name_match_def ends_with_def)
  show ?thesis
    using a b c
      failed_directive_state [of "example_externals sum_op" "''x''" "''xo''" "''xi''" "IntImm 8"
        False ShiftInwards sum_stage InvalidTailStrategy ?s1
        "\<lparr>name = ''r'', is_rvar = True\<rparr>" Parallel RaceCondition ?s2
        "[\<lparr>name = ''y'', is_rvar = False\<rparr>]" DimensionNotFound sum_stage]
    by simp
qed

subsection \<open>The race gate of set\_dim\_type\<close>

text \<open>
  Claim C3, as stated, fails: a successful associativity proof alone does not open the
  gate. On \<open>f(x) = f(x) + h(x, r)\<close> with neither flag set and a prover that certifies the
  sum, \<^verbatim>\<open>parallel(r)\<close> raises the race-condition error.
\<close>

theorem race_gate_counterexample:
  "associative (prove_associativity (example_externals sum_op) (func_name sum_stage)
                  (args sum_stage) (def_values sum_stage))
   \<and> \<not> is_done (parallel (example_externals sum_op) \<lparr>name = ''r'', is_rvar = True\<rparr> sum_stage)
   \<and> parallel (example_externals sum_op) \<lparr>name = ''r'', is_rvar = True\<rparr> sum_stage
     = Raised RaceCondition (sum_stage
         \<lparr>dims := [(serial_dim ''r'' ImpureRVar)\<lparr>for_type := Parallel\<rparr>,
                   serial_dim ''x'' PureVar, serial_dim ''__outermost'' PureVar]\<rparr>)"
  by (simp add: parallel_def set_dim_type_def set_dim_type_body_def race_check_def
        sum_stage_def serial_dim_def var_name_match_def ends_with_def dim_is_pure_def
        is_parallel_def example_externals_def sum_op_def Let_def upt_rec)

lemma set_dim_type_body_nodot:
  assumes "CHR ''.'' \<notin> set (name v)"
  shows "set_dim_type_body ext v t i found s =
     (if var_name_match (var (dims s ! i)) (name v) = Inr True then
        (if \<not> dim_is_pure (dims s ! i) \<and> is_rvar v \<and> is_parallel t then
           (case race_check ext s of
              Some e \<Rightarrow> Raised e (s\<lparr>dims := (dims s)[i := (dims s ! i)\<lparr>for_type := t\<rparr>]\<rparr>)
            | None \<Rightarrow> Done True (s\<lparr>dims := (dims s)[i := (dims s ! i)\<lparr>for_type := t\<rparr>]\<rparr>))
         else Done True (s\<lparr>dims := (dims s)[i := (dims s ! i)\<lparr>for_type := t\<rparr>]\<rparr>))
      else if t = Vectorized \<and> for_type (dims s ! i) = Vectorized
        then Raised MultipleVectorization s
      else Done found s)"
  using assms
  by (simp add: set_dim_type_body_def Let_def var_name_match_nodot race_check_dims)

lemma set_dim_type_loop_result:
  assumes nodot: "CHR ''.'' \<notin> set (name v)"
    and "distinct is" and "\<forall>i\<in>set is. i < length (dims s)"
    and "race_check ext s = rc"
  shows "if \<forall>i\<in>set is.
              (var_name_match (var (dims s ! i)) (name v) = Inr True
                 \<longrightarrow> \<not> dim_is_pure (dims s ! i) \<and> is_rvar v \<and> is_parallel t \<longrightarrow> rc = None)
              \<and> (var_name_match (var (dims s ! i)) (name v) \<noteq> Inr True
                 \<longrightarrow> \<not> (t = Vectorized \<and> for_type (dims s ! i) = Vectorized))
         then \<exists>s'. for_loop (set_dim_type_body ext v t) is found s
                = Done (found \<or> (\<exists>i\<in>set is. var_name_match (var (dims s ! i)) (name v) = Inr True)) s'
         else \<exists>e s'. for_loop (set_dim_type_body ext v t) is found s = Raised e s'
                \<and> (e = MultipleVectorization \<and> t = Vectorized \<or> rc = Some e)"
    (is "if \<forall>i\<in>set is. ?ok (dims s ! i) then ?good is found s else ?bad is found s")
  using assms(2-)
proof (induction "is" arbitrary: found s)
  case Nil
  then show ?case by simp
next
  case (Cons i js)
  let ?d = "dims s ! i"
  let ?s1 = "s\<lparr>dims := (dims s)[i := ?d\<lparr>for_type := t\<rparr>]\<rparr>"
  let ?M = "\<lambda>d. var_name_match (var d) (name v) = Inr True"
  have ni: "i \<notin> set js" and dis: "distinct js" using Cons.prems by auto
  have same1: "\<And>j. j \<in> set js \<Longrightarrow> dims ?s1 ! j = dims s ! j"
  proof -
    fix j assume "j \<in> set js"
    with ni have "i \<noteq> j" by auto
    then show "dims ?s1 ! j = dims s ! j" by simp
  qed
  have eq_ok: "(\<forall>j\<in>set js. ?ok (dims ?s1 ! j)) = (\<forall>j\<in>set js. ?ok (dims s ! j))"
    by (rule ball_cong[OF refl]) (simp only: same1)
  have eq_m: "(\<exists>j\<in>set js. ?M (dims ?s1 ! j)) = (\<exists>j\<in>set js. ?M (dims s ! j))"
    by (rule bex_cong[OF refl]) (simp only: same1)
  have bnd1: "\<forall>j\<in>set js. j < length (dims ?s1)" using Cons.prems by simp
  have bnd: "\<forall>j\<in>set js. j < length (dims s)" using Cons.prems by simp
  have rc1: "race_check ext ?s1 = rc" using Cons.prems by (simp add: race_check_dims)
  have rc0: "race_check ext s = rc" using Cons.prems by simp
  have IH1: "if \<forall>j\<in>set js. ?ok (dims s ! j)
             then \<exists>s'. for_loop (set_dim_type_body ext v t) js True ?s1 = Done True s'
             else ?bad js True ?s1"
  proof (cases "\<forall>j\<in>set js. ?ok (dims s ! j)")
    case True
    then have c1: "\<forall>j\<in>set js. ?ok (dims ?s1 ! j)" using eq_ok by (rule iffD2[rotated])
    have "?good js True ?s1"
      using Cons.IH[OF dis bnd1 rc1, of True] unfolding if_P[OF c1] .
    then have ex: "\<exists>s'. for_loop (set_dim_type_body ext v t) js True ?s1 = Done True s'"
      by simp
    show ?thesis unfolding if_P[OF True] by (rule ex)
  next
    case False
    then have c1: "\<not> (\<forall>j\<in>set js. ?ok (dims ?s1 ! j))" using eq_ok by simp
    have b: "?bad js True ?s1"
      using Cons.IH[OF dis bnd1 rc1, of True] unfolding if_not_P[OF c1] .
    show ?thesis unfolding if_not_P[OF False] by (rule b)
  qed
  note IH0 = Cons.IH[OF dis bnd rc0, of found]
  show ?case
  proof (cases "?M ?d")
    case True
    show ?thesis
    proof (cases "\<not> dim_is_pure ?d \<and> is_rvar v \<and> is_parallel t \<and> rc \<noteq> None")
      case bad: True
      then obtain e where e: "rc = Some e" by auto
      have nok: "\<not> (\<forall>k\<in>set (i # js). ?ok (dims s ! k))" using True bad by simp
      have "for_loop (set_dim_type_body ext v t) (i # js) found s = Raised e ?s1"
        using True bad rc0 e by (simp add: set_dim_type_body_nodot[OF nodot])
      with e have "?bad (i # js) found s" by blast
      then show ?thesis unfolding if_not_P[OF nok] .
    next
      case good: False
      have body: "set_dim_type_body ext v t i found s = Done True ?s1"
        using True good rc0 by (auto simp: set_dim_type_body_nodot[OF nodot])
      have okd: "?ok ?d" using True good by auto
      show ?thesis
      proof (cases "\<forall>j\<in>set js. ?ok (dims s ! j)")
        case all: True
        from IH1 obtain s' where l: "for_loop (set_dim_type_body ext v t) js True ?s1 = Done True s'"
          unfolding if_P[OF all] by blast
        have cond: "\<forall>k\<in>set (i # js). ?ok (dims s ! k)" using okd all by simp
        have "for_loop (set_dim_type_body ext v t) (i # js) found s
                = Done (found \<or> (\<exists>k\<in>set (i # js). ?M (dims s ! k))) s'"
          using body l True by simp
        then have "?good (i # js) found s" by blast
        then show ?thesis unfolding if_P[OF cond] .
      next
        case notall: False
        from IH1 obtain e s' where l: "for_loop (set_dim_type_body ext v t) js True ?s1 = Raised e s'"
          and e: "e = MultipleVectorization \<and> t = Vectorized \<or> rc = Some e"
          unfolding if_not_P[OF notall] by blast
        have nok: "\<not> (\<forall>k\<in>set (i # js). ?ok (dims s ! k))" using notall by simp
        have "for_loop (set_dim_type_body ext v t) (i # js) found s = Raised e s'"
          using body l by simp
        with e have "?bad (i # js) found s" by blast
        then show ?thesis unfolding if_not_P[OF nok] .
      qed
    qed
  next
    case False
    show ?thesis
    proof (cases "t = Vectorized \<and> for_type ?d = Vectorized")
      case bad: True
      have nok: "\<not> (\<forall>k\<in>set (i # js). ?ok (dims s ! k))" using False bad by simp
      have "for_loop (set_dim_type_body ext v t) (i # js) found s = Raised MultipleVectorization s"
        using False bad by (simp add: set_dim_type_body_nodot[OF nodot])
      with bad have "?bad (i # js) found s" by blast
      then show ?thesis unfolding if_not_P[OF nok] .
    next
      case good: False
      have body: "set_dim_type_body ext v t i found s = Done found s"
        using False good by (auto simp: set_dim_type_body_nodot[OF nodot])
      have okd: "?ok ?d" using False good by auto
      show ?thesis
      proof (cases "\<forall>j\<in>set js. ?ok (dims s ! j)")
        case all: True
        from IH0 obtain s' where l: "for_loop (set_dim_type_body ext v t) js found s
             = Done (found \<or> (\<exists>i\<in>set js. ?M (dims s ! i))) s'"
          unfolding if_P[OF all] by blast
        have cond: "\<forall>k\<in>set (i # js). ?ok (dims s ! k)" using okd all by simp
        have "for_loop (set_dim_type_body ext v t) (i # js) found s
                = Done (found \<or> (\<exists>k\<in>set (i # js). ?M (dims s ! k))) s'"
          using body l False by simp
        then have "?good (i # js) found s" by blast
        then show ?thesis unfolding if_P[OF cond] .
      next
        case notall: False
        from IH0 obtain e s' where l: "for_loop (set_dim_type_body ext v t) js found s = Raised e s'"
          and e: "e = MultipleVectorization \<and> t = Vectorized \<or> rc = Some e"
          unfolding if_not_P[OF notall] by blast
        have nok: "\<not> (\<forall>k\<in>set (i # js). ?ok (dims s ! k))" using notall by simp
        have "for_loop (set_dim_type_body ext v t) (i # js) found s = Raised e s'"
          using body l by simp
        with e have "?bad (i # js) found s" by blast
        then show ?thesis unfolding if_not_P[OF nok] .
      qed
    qed
  qed
qed


lemma race_check_None_iff:
  assumes "length (ops (prove_associativity ext (func_name s) (args s) (def_values s)))
             = length (def_values s)"
  shows "race_check ext s = None \<longleftrightarrow>
           allow_race_conditions s
           \<or> atomic s \<and> (override_atomic_associativity_test s
                \<or> associative (prove_associativity ext (func_name s) (args s) (def_values s)))"
  using assms by (auto simp: race_check_def Let_def split: if_splits)

lemma race_check_no_flags:
  "\<not> allow_race_conditions s \<Longrightarrow> \<not> atomic s \<Longrightarrow> race_check ext s = Some RaceCondition"
  by (simp add: race_check_def)

text \<open>
  Claim C3, amended. Let a reduction-variable handle with an unqualified name match an
  impure reduction dimension of the stage, let the requested loop type be a parallel one
  (\<open>Parallel\<close> or \<open>Vectorized\<close> in particular), and let the prover answer with one
  operator per value. Then \<^verbatim>\<open>set_dim_type\<close> succeeds if and only if the stage is
  flagged \<open>allow_race_conditions\<close>, or it is flagged \<open>atomic\<close> and either the override
  flag is set or the prover certifies associativity (and, for \<open>Vectorized\<close>, no other
  dimension is vectorized already). The prover never opens the gate by itself: with
  neither flag the call raises the race-condition error.
\<close>

theorem race_gate_needs_flag:
  assumes nodot: "CHR ''.'' \<notin> set (name v)" and rv: "is_rvar v" and par: "is_parallel t"
    and impure: "\<exists>d\<in>set (dims s). var_name_match (var d) (name v) = Inr True \<and> \<not> dim_is_pure d"
    and size: "length (ops (prove_associativity ext (func_name s) (args s) (def_values s)))
                 = length (def_values s)"
  shows "(is_done (set_dim_type ext v t s) \<longleftrightarrow>
            (allow_race_conditions s
             \<or> atomic s \<and> (override_atomic_associativity_test s
                  \<or> associative (prove_associativity ext (func_name s) (args s) (def_values s))))
            \<and> (t = Vectorized \<longrightarrow>
                 (\<forall>d\<in>set (dims s). var_name_match (var d) (name v) \<noteq> Inr True
                      \<longrightarrow> for_type d \<noteq> Vectorized)))
       \<and> (\<not> allow_race_conditions s \<and> \<not> atomic s \<and> t \<noteq> Vectorized
            \<longrightarrow> (\<exists>s'. set_dim_type ext v t s = Raised RaceCondition s'))"
proof -
  let ?n = "length (dims s)"
  let ?rc = "race_check ext s"
  let ?M = "\<lambda>d. var_name_match (var d) (name v) = Inr True"
  let ?okd = "\<lambda>d. (?M d \<longrightarrow> \<not> dim_is_pure d \<and> is_rvar v \<and> is_parallel t \<longrightarrow> ?rc = None)
              \<and> (\<not> ?M d \<longrightarrow> \<not> (t = Vectorized \<and> for_type d = Vectorized))"
  let ?loop = "for_loop (set_dim_type_body ext v t) [0..<?n] False s"
  have res: "if \<forall>i\<in>set [0..<?n]. ?okd (dims s ! i)
         then \<exists>s'. ?loop = Done (False \<or> (\<exists>i\<in>set [0..<?n]. ?M (dims s ! i))) s'
         else \<exists>e s'. ?loop = Raised e s' \<and> (e = MultipleVectorization \<and> t = Vectorized \<or> ?rc = Some e)"
    by (rule set_dim_type_loop_result[OF nodot]) simp_all
  have all_eq: "(\<forall>i\<in>set [0..<?n]. ?okd (dims s ! i)) \<longleftrightarrow> (\<forall>d\<in>set (dims s). ?okd d)"
    by (rule ball_upt_nth)
  have ex_m: "\<exists>i\<in>set [0..<?n]. ?M (dims s ! i)"
  proof -
    from impure have "\<exists>d\<in>set (dims s). ?M d" by blast
    then show ?thesis by (rule iffD2[OF bex_upt_nth[where ds="dims s" and P="?M"]])
  qed
  have gate: "(\<forall>d\<in>set (dims s). ?okd d) \<longleftrightarrow>
              ?rc = None \<and> (t = Vectorized \<longrightarrow> (\<forall>d\<in>set (dims s). \<not> ?M d \<longrightarrow> for_type d \<noteq> Vectorized))"
    using impure rv par by auto
  show ?thesis
  proof (cases "\<forall>i\<in>set [0..<?n]. ?okd (dims s ! i)")
    case True
    from res obtain s' where "?loop = Done (False \<or> (\<exists>i\<in>set [0..<?n]. ?M (dims s ! i))) s'"
      unfolding if_P[OF True] by blast
    with ex_m have l: "?loop = Done True s'" by simp
    then have d: "set_dim_type ext v t s = Done () s'" by (simp add: set_dim_type_def)
    have g: "\<forall>d\<in>set (dims s). ?okd d" using True unfolding all_eq .
    have gg: "?rc = None \<and> (t = Vectorized \<longrightarrow> (\<forall>d\<in>set (dims s). \<not> ?M d \<longrightarrow> for_type d \<noteq> Vectorized))"
      using g unfolding gate .
    have rcn: "?rc = None" using gg by (rule conjunct1)
    have vec: "t = Vectorized \<longrightarrow> (\<forall>d\<in>set (dims s). \<not> ?M d \<longrightarrow> for_type d \<noteq> Vectorized)"
      using gg by (rule conjunct2)
    have flags: "allow_race_conditions s \<or> atomic s" 
      using rcn race_check_no_flags[of s ext] by auto
    show ?thesis using d rcn vec flags race_check_None_iff[OF size] by auto
  next
    case False
    from res obtain e s' where l: "?loop = Raised e s'"
      and e: "e = MultipleVectorization \<and> t = Vectorized \<or> ?rc = Some e"
      unfolding if_not_P[OF False] by blast
    from l have d: "set_dim_type ext v t s = Raised e s'" by (simp add: set_dim_type_def)
    have g: "\<not> (\<forall>d\<in>set (dims s). ?okd d)" using False unfolding all_eq .
    have ng: "\<not> (?rc = None \<and> (t = Vectorized \<longrightarrow> (\<forall>d\<in>set (dims s). \<not> ?M d \<longrightarrow> for_type d \<noteq> Vectorized)))"
      using g unfolding gate .
    have e2: "\<not> allow_race_conditions s \<and> \<not> atomic s \<and> t \<noteq> Vectorized \<longrightarrow> e = RaceCondition"
      using e race_check_no_flags[of s ext] by auto
    show ?thesis using d ng e2 race_check_None_iff[OF size] by auto
  qed
qed


theorem race_gate_needs_flag_witness:
  "is_done (set_dim_type (example_externals sum_op) \<lparr>name = ''r'', is_rvar = True\<rparr> Parallel
              (atomic_directive False sum_stage))
   \<and> (\<exists>s'. set_dim_type (example_externals sum_op) \<lparr>name = ''r'', is_rvar = True\<rparr> Parallel
              sum_stage = Raised RaceCondition s')"
proof -
  let ?v = "\<lparr>name = ''r'', is_rvar = True\<rparr>"
  let ?e = "example_externals sum_op"
  have n: "CHR ''.'' \<notin> set (name ?v)" by simp
  have r: "is_rvar ?v" by simp
  have p: "is_parallel Parallel" by (simp add: is_parallel_def)
  have i1: "\<exists>d\<in>set (dims sum_stage). var_name_match (var d) (name ?v) = Inr True \<and> \<not> dim_is_pure d"
    by (simp add: sum_stage_def serial_dim_def var_name_match_def dim_is_pure_def)
  have i2: "\<exists>d\<in>set (dims (atomic_directive False sum_stage)).
              var_name_match (var d) (name ?v) = Inr True \<and> \<not> dim_is_pure d"
    using i1 by (simp add: atomic_directive_def)
  have s1: "length (ops (prove_associativity ?e (func_name sum_stage) (args sum_stage)
                          (def_values sum_stage))) = length (def_values sum_stage)"
    by (simp add: example_externals_def sum_op_def sum_stage_def)
  have s2: "length (ops (prove_associativity ?e (func_name (atomic_directive False sum_stage))
                          (args (atomic_directive False sum_stage))
                          (def_values (atomic_directive False sum_stage))))
              = length (def_values (atomic_directive False sum_stage))"
    by (simp add: example_externals_def sum_op_def sum_stage_def atomic_directive_def)
  show ?thesis
    using race_gate_needs_flag [OF n r p i2 s2] race_gate_needs_flag [OF n r p i1 s1]
    by (simp add: atomic_directive_def example_externals_def sum_op_def sum_stage_def)
qed

subsection \<open>reorder and reduction variables\<close>

text \<open>
  Claim C4, as stated, fails on both counts. The request lists the variables from the
  innermost to the outermost, so with \<open>r1\<close> the inner and \<open>r0\<close> the outer loop
  \<^verbatim>\<open>reorder(r1, r0)\<close> asks for the order the loops already have and succeeds, for a
  subtraction too; and \<^verbatim>\<open>reorder(r0, r1)\<close>, which swaps two adjacent reduction
  dimensions, is refused: adjacency plays no part.
\<close>

theorem reorder_counterexample:
  "reorder (example_externals difference_op)
       [\<lparr>name = ''r1'', is_rvar = True\<rparr>, \<lparr>name = ''r0'', is_rvar = True\<rparr>] difference_stage
     = Done () difference_stage
   \<and> reorder (example_externals difference_op)
       [\<lparr>name = ''r0'', is_rvar = True\<rparr>, \<lparr>name = ''r1'', is_rvar = True\<rparr>] difference_stage
     = Raised UnsafeReorder difference_stage
   \<and> dims difference_stage
     = [serial_dim ''r1'' ImpureRVar, serial_dim ''r0'' ImpureRVar,
        serial_dim ''x'' PureVar, serial_dim ''__outermost'' PureVar]"
  by (simp add: reorder_def permute_dims_def retarget_fuse_level_def difference_stage_def
        serial_dim_def var_name_match_def ends_with_def dim_is_pure_def example_externals_def
        difference_op_def Let_def upt_rec)

lemma rvar_reordered_with_iff:
  "rvar_reordered_with ds xi rest \<longleftrightarrow>
     (\<exists>j<length rest. \<not> dim_is_pure (ds ! (rest ! j)) \<and> rest ! j < xi)"
  by (induction rest) (auto simp: Ex_less_Suc2)

lemma rvar_reordered_iff:
  "rvar_reordered ds idx \<longleftrightarrow>
     (\<exists>i j. i < j \<and> j < length idx \<and> \<not> dim_is_pure (ds ! (idx ! i))
        \<and> \<not> dim_is_pure (ds ! (idx ! j)) \<and> idx ! j < idx ! i)"
proof (induction idx)
  case Nil
  then show ?case by simp
next
  case (Cons x rest)
  have "(\<exists>i j. i < j \<and> j < length (x # rest) \<and> \<not> dim_is_pure (ds ! ((x # rest) ! i))
        \<and> \<not> dim_is_pure (ds ! ((x # rest) ! j)) \<and> (x # rest) ! j < (x # rest) ! i)
     \<longleftrightarrow> (\<not> dim_is_pure (ds ! x) \<and> (\<exists>j<length rest. \<not> dim_is_pure (ds ! (rest ! j)) \<and> rest ! j < x))
        \<or> (\<exists>i j. i < j \<and> j < length rest \<and> \<not> dim_is_pure (ds ! (rest ! i))
        \<and> \<not> dim_is_pure (ds ! (rest ! j)) \<and> rest ! j < rest ! i)"
    (is "?L \<longleftrightarrow> ?A \<or> ?B")
  proof
    assume ?L
    then obtain i j where ij: "i < j" "j < length (x # rest)"
      "\<not> dim_is_pure (ds ! ((x # rest) ! i))" "\<not> dim_is_pure (ds ! ((x # rest) ! j))"
      "(x # rest) ! j < (x # rest) ! i" by blast
    from ij(1) obtain j' where j': "j = Suc j'" by (cases j) auto
    show "?A \<or> ?B"
    proof (cases i)
      case 0
      with ij j' have ?A by auto
      then show ?thesis ..
    next
      case (Suc i')
      with ij j' have "i' < j' \<and> j' < length rest \<and> \<not> dim_is_pure (ds ! (rest ! i'))
        \<and> \<not> dim_is_pure (ds ! (rest ! j')) \<and> rest ! j' < rest ! i'" by auto
      then have ?B by blast
      then show ?thesis ..
    qed
  next
    assume "?A \<or> ?B"
    then show ?L
    proof
      assume ?A
      then obtain j where "j < length rest" "\<not> dim_is_pure (ds ! (rest ! j))" "rest ! j < x"
        and "\<not> dim_is_pure (ds ! x)" by blast
      then have "0 < Suc j \<and> Suc j < length (x # rest) \<and> \<not> dim_is_pure (ds ! ((x # rest) ! 0))
        \<and> \<not> dim_is_pure (ds ! ((x # rest) ! Suc j)) \<and> (x # rest) ! Suc j < (x # rest) ! 0"
        by simp
      then show ?L by blast
    next
      assume ?B
      then obtain i j where "i < j" "j < length rest" "\<not> dim_is_pure (ds ! (rest ! i))"
        "\<not> dim_is_pure (ds ! (rest ! j))" "rest ! j < rest ! i" by blast
      then have "Suc i < Suc j \<and> Suc j < length (x # rest) \<and> \<not> dim_is_pure (ds ! ((x # rest) ! Suc i))
        \<and> \<not> dim_is_pure (ds ! ((x # rest) ! Suc j)) \<and> (x # rest) ! Suc j < (x # rest) ! Suc i"
        by simp
      then show ?L by blast
    qed
  qed
  then show ?case using Cons.IH by (simp add: rvar_reordered_with_iff)
qed

lemma permute_fold:
  assumes "distinct ps" and "m \<le> length ps" and "\<forall>p\<in>set ps. p < length ds"
  shows "length (foldl (\<lambda>a i. a[ps ! i := vs ! i]) ds [0..<m]) = length ds
       \<and> (\<forall>k<m. foldl (\<lambda>a i. a[ps ! i := vs ! i]) ds [0..<m] ! (ps ! k) = vs ! k)
       \<and> (\<forall>p. p \<notin> set (take m ps) \<longrightarrow> foldl (\<lambda>a i. a[ps ! i := vs ! i]) ds [0..<m] ! p = ds ! p)"
  using assms(2)
proof (induction m)
  case 0
  then show ?case by simp
next
  case (Suc m)
  let ?F = "foldl (\<lambda>a i. a[ps ! i := vs ! i]) ds [0..<m]"
  from Suc have IH: "length ?F = length ds" "\<forall>k<m. ?F ! (ps ! k) = vs ! k"
    "\<forall>p. p \<notin> set (take m ps) \<longrightarrow> ?F ! p = ds ! p" by auto
  have m: "m < length ps" using Suc.prems by simp
  have step: "foldl (\<lambda>a i. a[ps ! i := vs ! i]) ds [0..<Suc m] = ?F[ps ! m := vs ! m]" by simp
  have inb: "ps ! m < length ?F" using assms(3) m IH(1) by simp
  have ne: "\<And>k. k < m \<Longrightarrow> ps ! k \<noteq> ps ! m"
    using assms(1) m by (simp add: nth_eq_iff_index_eq)
  have tk: "set (take (Suc m) ps) = insert (ps ! m) (set (take m ps))"
    using m by (simp add: take_Suc_conv_app_nth)
  have a: "length (?F[ps ! m := vs ! m]) = length ds" using IH(1) by simp
  have b: "\<forall>k<Suc m. ?F[ps ! m := vs ! m] ! (ps ! k) = vs ! k"
  proof (intro allI impI)
    fix k assume "k < Suc m"
    then consider "k = m" | "k < m" by linarith
    then show "?F[ps ! m := vs ! m] ! (ps ! k) = vs ! k"
    proof cases
      case 1
      then show ?thesis using inb by simp
    next
      case 2
      then have "ps ! k \<noteq> ps ! m" by (rule ne)
      then show ?thesis using IH(2) 2 by simp
    qed
  qed
  have c: "\<forall>p. p \<notin> set (take (Suc m) ps) \<longrightarrow> ?F[ps ! m := vs ! m] ! p = ds ! p"
  proof (intro allI impI)
    fix p assume "p \<notin> set (take (Suc m) ps)"
    then have "p \<noteq> ps ! m" and "p \<notin> set (take m ps)" unfolding tk by auto
    then show "?F[ps ! m := vs ! m] ! p = ds ! p" using IH(3) by simp
  qed
  show ?case unfolding step using a b c by blast
qed


lemma find_var_Inl: "find_var vs n = Inl e \<Longrightarrow> e = InternalError"
  by (induction vs) (auto dest: var_name_match_Inl split: sum.splits bool.splits option.splits)

lemma retarget_fuse_level_Inl:
  "retarget_fuse_level lvl dims_old ds vars = Inl e \<Longrightarrow> e = InternalError \<or> e = UndefinedBehaviour"
  by (auto simp: retarget_fuse_level_def Let_def dest: find_dim_Inl find_var_Inl
        split: loop_level.splits sum.splits option.splits if_splits)

lemma find_last_dim_bound:
  "find_last_dim ds v j acc = Inr (Some k) \<Longrightarrow> acc = Some k \<or> (j \<le> k \<and> k < j + length ds)"
  by (induction ds arbitrary: j acc) (fastforce split: sum.splits if_splits)+

lemma reorder_indices_bound:
  "reorder_indices ds vars = Inr idx \<Longrightarrow> length idx = length vars \<and> (\<forall>x\<in>set idx. x < length ds)"
proof (induction vars arbitrary: idx)
  case Nil
  then show ?case by simp
next
  case (Cons v vars)
  then show ?case
    by (auto split: sum.splits option.splits dest!: find_last_dim_bound)
qed

text \<open>
  Claim C4, amended. Let every requested name resolve, with \<open>idx\<close> the dimension
  indices of the request. \<^verbatim>\<open>reorder\<close> raises the unsafe-reorder error exactly when two
  requested impure reduction dimensions change their relative order (the earlier in the
  request lies outside the later in the loop nest, adjacent or not) and the prover does
  not certify the operator both associative and commutative; any failure leaves the stage
  unchanged. A successful call sets the dimension list to the permutation: with no
  \<^verbatim>\<open>compute_with\<close> level to retarget and no blocking pair the call succeeds, and for
  distinct indices the requested dimensions occupy the same set of positions in the
  requested order while every other position is unchanged. For the subtraction over
  \<open>r1\<close> (inner) and \<open>r0\<close> (outer) it is \<^verbatim>\<open>reorder(r0, r1)\<close> that fails.
\<close>

theorem reorder_unsafe_iff:
  assumes idx: "reorder_indices (dims s) vars = Inr idx"
  shows "((\<exists>s'. reorder ext vars s = Raised UnsafeReorder s') \<longleftrightarrow>
            (\<exists>i j. i < j \<and> j < length idx \<and> \<not> dim_is_pure (dims s ! (idx ! i))
                \<and> \<not> dim_is_pure (dims s ! (idx ! j)) \<and> idx ! j < idx ! i)
            \<and> \<not> (associative (prove_associativity ext (func_name s) (args s) (def_values s))
                  \<and> commutative (prove_associativity ext (func_name s) (args s) (def_values s))))
       \<and> (\<forall>e s'. reorder ext vars s = Raised e s' \<longrightarrow> s' = s)
       \<and> (\<forall>s'. reorder ext vars s = Done () s' \<longrightarrow> dims s' = permute_dims (dims s) idx)
       \<and> (fuse_level s = LevelInlined
            \<and> \<not> ((\<exists>i j. i < j \<and> j < length idx \<and> \<not> dim_is_pure (dims s ! (idx ! i))
                    \<and> \<not> dim_is_pure (dims s ! (idx ! j)) \<and> idx ! j < idx ! i)
                 \<and> \<not> (associative (prove_associativity ext (func_name s) (args s) (def_values s))
                       \<and> commutative (prove_associativity ext (func_name s) (args s) (def_values s))))
            \<longrightarrow> reorder ext vars s = Done () (s\<lparr>dims := permute_dims (dims s) idx\<rparr>))
       \<and> (distinct idx \<longrightarrow>
             length (permute_dims (dims s) idx) = length (dims s)
             \<and> (\<forall>k<length idx. permute_dims (dims s) idx ! (sort idx ! k) = dims s ! (idx ! k))
             \<and> (\<forall>p. p \<notin> set idx \<longrightarrow> permute_dims (dims s) idx ! p = dims s ! p))"
proof -
  let ?blocked = "(\<exists>i j. i < j \<and> j < length idx \<and> \<not> dim_is_pure (dims s ! (idx ! i))
                \<and> \<not> dim_is_pure (dims s ! (idx ! j)) \<and> idx ! j < idx ! i)
            \<and> \<not> (associative (prove_associativity ext (func_name s) (args s) (def_values s))
                  \<and> commutative (prove_associativity ext (func_name s) (args s) (def_values s)))"
  have rr: "rvar_reordered (dims s) idx \<longleftrightarrow>
            (\<exists>i j. i < j \<and> j < length idx \<and> \<not> dim_is_pure (dims s ! (idx ! i))
                \<and> \<not> dim_is_pure (dims s ! (idx ! j)) \<and> idx ! j < idx ! i)"
    by (rule rvar_reordered_iff)
  have p1: "(\<exists>s'. reorder ext vars s = Raised UnsafeReorder s') \<longleftrightarrow> ?blocked"
    unfolding reorder_def idx rr[symmetric]
    by (auto simp: Let_def dest: retarget_fuse_level_Inl split: sum.splits)
  have p2: "\<forall>e s'. reorder ext vars s = Raised e s' \<longrightarrow> s' = s"
    by (auto simp: reorder_def Let_def split: sum.splits if_splits)
  have p3: "\<forall>s'. reorder ext vars s = Done () s' \<longrightarrow> dims s' = permute_dims (dims s) idx"
    unfolding reorder_def idx
    by (auto simp: Let_def split: sum.splits if_splits)
  have p4: "fuse_level s = LevelInlined \<and> \<not> ?blocked
            \<longrightarrow> reorder ext vars s = Done () (s\<lparr>dims := permute_dims (dims s) idx\<rparr>)"
    unfolding reorder_def idx rr[symmetric]
    by (auto simp: Let_def retarget_fuse_level_def)
  have p5: "distinct idx \<longrightarrow>
             length (permute_dims (dims s) idx) = length (dims s)
             \<and> (\<forall>k<length idx. permute_dims (dims s) idx ! (sort idx ! k) = dims s ! (idx ! k))
             \<and> (\<forall>p. p \<notin> set idx \<longrightarrow> permute_dims (dims s) idx ! p = dims s ! p)"
  proof
    assume d: "distinct idx"
    have d': "distinct (sort idx)" using d by simp
    have l: "length idx \<le> length (sort idx)" by simp
    have b: "\<forall>p\<in>set (sort idx). p < length (dims s)"
      using reorder_indices_bound[OF idx] by simp
    let ?vs = "map (\<lambda>i. dims s ! (idx ! i)) [0..<length idx]"
    have eq: "permute_dims (dims s) idx
               = foldl (\<lambda>a i. a[sort idx ! i := ?vs ! i]) (dims s) [0..<length idx]"
      unfolding permute_dims_def
      by (rule foldl_cong) auto
    from permute_fold[OF d' l b, of ?vs]
    show "length (permute_dims (dims s) idx) = length (dims s)
             \<and> (\<forall>k<length idx. permute_dims (dims s) idx ! (sort idx ! k) = dims s ! (idx ! k))
             \<and> (\<forall>p. p \<notin> set idx \<longrightarrow> permute_dims (dims s) idx ! p = dims s ! p)"
      unfolding eq[symmetric] by (auto simp: take_all_iff)
  qed
  show ?thesis using p1 p2 p3 p4 p5 by blast
qed


theorem reorder_unsafe_iff_witness:
  "reorder_indices (dims difference_stage)
       [\<lparr>name = ''r0'', is_rvar = True\<rparr>, \<lparr>name = ''r1'', is_rvar = True\<rparr>] = Inr [1, 0]
   \<and> (\<exists>s'. reorder (example_externals difference_op)
          [\<lparr>name = ''r0'', is_rvar = True\<rparr>, \<lparr>name = ''r1'', is_rvar = True\<rparr>] difference_stage
        = Raised UnsafeReorder s')
   \<and> reorder (example_externals sum_op)
          [\<lparr>name = ''r0'', is_rvar = True\<rparr>, \<lparr>name = ''r1'', is_rvar = True\<rparr>] difference_stage
        = Done () (difference_stage
            \<lparr>dims := [serial_dim ''r0'' ImpureRVar, serial_dim ''r1'' ImpureRVar,
                      serial_dim ''x'' PureVar, serial_dim ''__outermost'' PureVar]\<rparr>)"
proof -
  let ?vars = "[\<lparr>name = ''r0'', is_rvar = True\<rparr>, \<lparr>name = ''r1'', is_rvar = True\<rparr>]"
  have i: "reorder_indices (dims difference_stage) ?vars = Inr [1, 0]"
    by (simp add: difference_stage_def serial_dim_def var_name_match_def ends_with_def)
  have p: "permute_dims (dims difference_stage) [1, 0]
             = [serial_dim ''r0'' ImpureRVar, serial_dim ''r1'' ImpureRVar,
                serial_dim ''x'' PureVar, serial_dim ''__outermost'' PureVar]"
    by (simp add: permute_dims_def difference_stage_def upt_rec)
  have b: "(0::nat) < 1 \<and> 1 < length [1::nat, 0]
             \<and> \<not> dim_is_pure (dims difference_stage ! ([1, 0] ! 0))
             \<and> \<not> dim_is_pure (dims difference_stage ! ([1, 0] ! 1))
             \<and> [1::nat, 0] ! 1 < [1, 0] ! 0"
    by (simp add: difference_stage_def serial_dim_def dim_is_pure_def)
  have f: "fuse_level difference_stage = LevelInlined" by (simp add: difference_stage_def)
  have n: "\<not> commutative (prove_associativity (example_externals difference_op)
              (func_name difference_stage) (args difference_stage) (def_values difference_stage))"
    by (simp add: example_externals_def difference_op_def)
  have c: "associative (prove_associativity (example_externals sum_op)
              (func_name difference_stage) (args difference_stage) (def_values difference_stage))
         \<and> commutative (prove_associativity (example_externals sum_op)
              (func_name difference_stage) (args difference_stage) (def_values difference_stage))"
    by (simp add: example_externals_def sum_op_def)
  have w1: "\<exists>s'. reorder (example_externals difference_op) ?vars difference_stage
                  = Raised UnsafeReorder s'"
    using reorder_unsafe_iff [OF i, of "example_externals difference_op"] b n by blast
  have w2: "reorder (example_externals sum_op) ?vars difference_stage
              = Done () (difference_stage\<lparr>dims := permute_dims (dims difference_stage) [1, 0]\<rparr>)"
    using reorder_unsafe_iff [OF i, of "example_externals sum_op"] f c by blast
  show ?thesis using i w1 w2 unfolding p by blast
qed

subsection \<open>split followed by fuse\<close>













end
